theory Spec2Isabelle
  imports Main "HOL-Library.Sublist"
begin

section \<open>Python strings\<close>

text \<open>
  A Python \<open>str\<close> is a sequence of Unicode code points, and \<open>len\<close> and slicing count code
  points. A string is therefore a list of code points; \<open>asc\<close> reads an ASCII literal.
\<close>

type_synonym ustr = "nat list"

definition asc :: "string \<Rightarrow> ustr" where
  "asc s = map of_char s"

text \<open>\<open>str(n)\<close> for an integer: decimal digits, with a minus sign for negative values.\<close>

fun digits :: "nat \<Rightarrow> ustr" where
  "digits n = (if n < 10 then [48 + n] else digits (n div 10) @ [48 + n mod 10])"

declare digits.simps [simp del]

definition str_int :: "int \<Rightarrow> ustr" where
  "str_int i = (if i < 0 then 45 # digits (nat (- i)) else digits (nat i))"

definition str_len :: "'a list \<Rightarrow> ustr" where
  "str_len xs = digits (length xs)"

text \<open>\<open>sep.join(parts)\<close>.\<close>

fun join :: "ustr \<Rightarrow> ustr list \<Rightarrow> ustr" where
  "join sep [] = []"
| "join sep [x] = x"
| "join sep (x # y # ys) = x @ sep @ join sep (y # ys)"

text \<open>What an f-string prints for a value that may be \<open>None\<close>.\<close>

definition fmt_str :: "ustr option \<Rightarrow> ustr" where
  "fmt_str v = (case v of None \<Rightarrow> asc ''None'' | Some s \<Rightarrow> s)"

definition fmt_int :: "int option \<Rightarrow> ustr" where
  "fmt_int v = (case v of None \<Rightarrow> asc ''None'' | Some i \<Rightarrow> str_int i)"

text \<open>\<open>d.get(key, default)\<close> on a key that is absent (\<open>None\<close>) or present.\<close>

definition dict_get :: "'a option \<Rightarrow> 'a \<Rightarrow> 'a" where
  "dict_get v dflt = (case v of None \<Rightarrow> dflt | Some x \<Rightarrow> x)"

section \<open>Data model\<close>

text \<open>
  The dictionaries exchanged between the components, as records of the keys the code
  reads. A field of option type is a key the reader fetches with \<open>.get\<close> or tests with
  \<open>in\<close>: \<open>None\<close> is the absent key. A field without option is a key the reader
  subscripts; the records are the well-formed ones of the data model, in which those keys
  are present and every value has the type the data model gives it.
\<close>

record ticket =
  tk_key :: ustr
  tk_summary :: ustr
  tk_status :: ustr

record task =
  bt_key :: ustr
  bt_summary :: ustr
  bt_assignee :: ustr

record transition =
  tr_to :: "ustr option"
  tr_author :: ustr
  tr_time :: ustr

record change =
  ch_key :: ustr
  ch_summary :: ustr
  ch_status_changes :: "transition list option"

record jira_data =
  new_tickets :: "ticket list option"
  blocked_tasks :: "task list option"
  status_changes :: "change list option"

record pr_record =
  pr_number :: int
  pr_title :: ustr
  pr_url :: ustr
  pr_author :: ustr
  pr_created_at :: ustr
  pr_days_open :: int
  pr_repository :: ustr
  pr_reviewers :: "ustr list option"

record merge_record =
  mr_number :: int
  mr_title :: ustr
  mr_url :: ustr
  mr_author :: ustr
  mr_merged_at :: ustr
  mr_repository :: ustr
  mr_merged_by :: ustr

record commit_record =
  cr_sha :: ustr
  cr_message :: ustr
  cr_url :: ustr
  cr_author :: ustr
  cr_date :: ustr
  cr_repository :: ustr

record analysis_record =
  an_pr_number :: "int option"
  an_repo :: "ustr option"
  an_title :: "ustr option"
  an_author :: "ustr option"
  an_analysis :: "ustr option"
  an_url :: "ustr option"

record github_data =
  open_prs :: "pr_record list option"
  recent_merges :: "merge_record list option"
  urgent_commits :: "commit_record list option"
  pr_analyses :: "analysis_record list option"

record db_data =
  activity_stats :: "(string \<times> int) list option"
  team_metrics :: "(string \<times> int) list option"

record digest_data =
  jira :: "jira_data option"
  github :: "github_data option"
  database :: "db_data option"

text \<open>The empty dictionary \<open>{}\<close> at each of these types.\<close>

definition empty_jira :: jira_data where
  "empty_jira = \<lparr>new_tickets = None, blocked_tasks = None, status_changes = None\<rparr>"

definition empty_github :: github_data where
  "empty_github =
     \<lparr>open_prs = None, recent_merges = None, urgent_commits = None, pr_analyses = None\<rparr>"

definition empty_db :: db_data where
  "empty_db = \<lparr>activity_stats = None, team_metrics = None\<rparr>"

text \<open>
  The PR Diff Snapshot and its Changed-File entries. \<open>dd_body\<close> keeps apart the key that
  is absent (\<open>None\<close>) and the key that holds \<open>None\<close> (\<open>Some None\<close>): \<open>.get\<close> with a default
  tells them apart.
\<close>

record changed_file =
  cf_filename :: "ustr option"
  cf_status :: "ustr option"
  cf_additions :: "int option"
  cf_deletions :: "int option"
  cf_patch :: "ustr option"

record diff_data =
  dd_title :: "ustr option"
  dd_body :: "ustr option option"
  dd_user :: "ustr option"
  dd_created_at :: "ustr option"
  dd_files :: "changed_file list option"

section \<open>Summarization service (ai_summarizer.py)\<close>

text \<open>An exception, with the text \<open>str(e)\<close> gives.\<close>

datatype error = AttributeError ustr | IndexError ustr | ExternalError ustr

fun str_error :: "error \<Rightarrow> ustr" where
  "str_error (AttributeError m) = m"
| "str_error (IndexError m) = m"
| "str_error (ExternalError m) = m"

subsection \<open>generate_simple_summary\<close>

text \<open>The five counts the summary is built from.\<close>

definition new_tickets_count :: "digest_data \<Rightarrow> nat" where
  "new_tickets_count data = length (dict_get (new_tickets (dict_get (jira data) empty_jira)) [])"

definition blocked_tasks_count :: "digest_data \<Rightarrow> nat" where
  "blocked_tasks_count data =
     length (dict_get (blocked_tasks (dict_get (jira data) empty_jira)) [])"

definition open_prs_count :: "digest_data \<Rightarrow> nat" where
  "open_prs_count data = length (dict_get (open_prs (dict_get (github data) empty_github)) [])"

definition merged_prs_count :: "digest_data \<Rightarrow> nat" where
  "merged_prs_count data =
     length (dict_get (recent_merges (dict_get (github data) empty_github)) [])"

definition urgent_commits_count :: "digest_data \<Rightarrow> nat" where
  "urgent_commits_count data =
     length (dict_get (urgent_commits (dict_get (github data) empty_github)) [])"

definition summary_parts :: "digest_data \<Rightarrow> ustr list" where
  "summary_parts data =
     (if new_tickets_count data > 0
      then [digits (new_tickets_count data) @ asc '' new Jira tickets were created'']
      else [])
     @ (if blocked_tasks_count data > 0
        then [digits (blocked_tasks_count data) @ asc '' tasks are currently blocked'']
        else [])
     @ (if open_prs_count data > 0
        then [digits (open_prs_count data) @ asc '' pull requests are waiting for review'']
        else [])
     @ (if merged_prs_count data > 0
        then [digits (merged_prs_count data) @ asc '' pull requests were merged yesterday'']
        else [])
     @ (if urgent_commits_count data > 0
        then [digits (urgent_commits_count data) @ asc '' urgent commits were made yesterday'']
        else [])"

definition generate_simple_summary :: "digest_data \<Rightarrow> ustr \<Rightarrow> ustr" where
  "generate_simple_summary data team_name =
     (let parts = summary_parts data
      in if parts = []
         then asc ''Good morning, '' @ team_name
              @ asc ''! No significant updates or issues to report today. Everything appears to be running smoothly.''
         else
           (let summary = asc ''Here's today's update for '' @ team_name @ asc '': ''
                          @ join (asc '', '') (butlast parts);
                summary = (if length parts > 1
                           then summary @ asc '', and '' @ last parts @ asc ''.''
                           else summary @ asc '' '' @ hd parts @ asc ''.'')
            in if blocked_tasks_count data > 0
               then summary @ asc '' Priority should be given to resolving the ''
                    @ digits (blocked_tasks_count data) @ asc '' blocked tasks.''
               else if open_prs_count data > 0
               then summary
                    @ asc '' Consider reviewing the open pull requests to keep development moving forward.''
               else summary))"

subsection \<open>_build_pr_analysis_prompt\<close>

definition prompt_head :: "diff_data \<Rightarrow> ustr" where
  "prompt_head d =
     asc ''You are a senior software engineer.\<newline>''
     @ asc ''Summarize this pull request in plain English.\<newline>''
     @ asc ''Then suggest 3-5 relevant unit test cases based on the logic in the diff.\<newline>''
     @ asc ''\<newline>''
     @ asc ''Pull Request: '' @ fmt_str (dd_title d) @ asc ''\<newline>''
     @ asc ''Author: '' @ fmt_str (dd_user d) @ asc ''\<newline>''
     @ asc ''Description: ''
     @ fmt_str (dict_get (dd_body d) (Some (asc ''No description provided.''))) @ asc ''\<newline>''
     @ asc ''\<newline>''
     @ asc ''Changed files:\<newline>''"

definition file_lines :: "changed_file \<Rightarrow> ustr" where
  "file_lines f =
     asc ''\<newline>File: '' @ fmt_str (cf_filename f)
     @ asc ''\<newline>Status: '' @ fmt_str (cf_status f)
     @ asc ''\<newline>Changes: +'' @ fmt_int (cf_additions f) @ asc '' -''
     @ fmt_int (cf_deletions f) @ asc '' lines''"

text \<open>\<open>if patch and len(patch) < 3000\<close>: a patch that is \<open>None\<close> or empty is falsy.\<close>

definition patch_lines :: "ustr option \<Rightarrow> ustr" where
  "patch_lines patch =
     (case patch of
        None \<Rightarrow> asc ''\<newline>[Diff too large to include]\<newline>''
      | Some p \<Rightarrow>
          if p \<noteq> [] \<and> length p < 3000
          then asc ''\<newline>```\<newline>'' @ p @ asc ''\<newline>```\<newline>''
          else asc ''\<newline>[Diff too large to include]\<newline>'')"

text \<open>What one pass of the loop over the files appends to the prompt.\<close>

definition file_entry :: "changed_file \<Rightarrow> ustr" where
  "file_entry f = file_lines f @ patch_lines (cf_patch f)"

definition build_pr_analysis_prompt :: "diff_data \<Rightarrow> ustr" where
  "build_pr_analysis_prompt d =
     fold (\<lambda>f prompt. prompt @ file_entry f) (dict_get (dd_files d) []) (prompt_head d)"

subsection \<open>generate_custom_text and analyze_pr_diff\<close>

text \<open>
  The reply of the model service, parsed: the \<open>content\<close> key (absent, or a list of blocks),
  each block with its \<open>text\<close> key (absent or present). The client handle is the behaviour
  of \<open>invoke_model\<close> followed by the parse of the body: it raises or yields a reply.
\<close>

type_synonym reply = "ustr option list option"

record summarizer =
  bs_client :: "(ustr \<Rightarrow> error + reply) option"
  bs_model_id :: "ustr option"
  bs_max_tokens :: nat

text \<open>
  \<open>response_body.get('content', [{}])[0].get('text', '')\<close>, inside the \<open>try\<close>: an empty
  \<open>content\<close> list has no first element.
\<close>

definition parse_reply :: "error + reply \<Rightarrow> error + ustr" where
  "parse_reply response =
     (case response of
        Inl e \<Rightarrow> Inl e
      | Inr response_body \<Rightarrow>
          (case dict_get response_body [None] of
             [] \<Rightarrow> Inl (IndexError (asc ''list index out of range''))
           | first # _ \<Rightarrow> Inr (dict_get first [])))"

definition generate_custom_text :: "summarizer \<Rightarrow> ustr \<Rightarrow> ustr" where
  "generate_custom_text s prompt =
     (case bs_client s of
        None \<Rightarrow> asc ''Unable to generate text due to configuration issues.''
      | Some invoke_model \<Rightarrow>
          if bs_model_id s = None \<or> bs_model_id s = Some []
          then asc ''Unable to generate text due to configuration issues.''
          else
            (case parse_reply (invoke_model prompt) of
               Inl e \<Rightarrow> asc ''Unable to generate text. Error: '' @ str_error e
             | Inr generated_text \<Rightarrow> generated_text))"

definition analyze_pr_diff :: "summarizer \<Rightarrow> diff_data \<Rightarrow> ustr" where
  "analyze_pr_diff s d = generate_custom_text s (build_pr_analysis_prompt d)"

section \<open>Notification formatter (teams_formatter.py)\<close>

text \<open>
  A display block of the card body. A text block carries its text and the optional
  attributes the source writes into the dictionary (\<open>None\<close>: the key is not written); an
  action block carries its actions, each of type \<open>Action.OpenUrl\<close>.
\<close>

datatype action = OpenUrl (act_title: ustr) (act_url: ustr)

datatype block =
    TextBlock (tb_text: ustr) (tb_weight: "string option") (tb_size: "string option")
      (tb_wrap: "bool option") (tb_isSubtle: "bool option") (tb_spacing: "string option")
  | ActionSet (actions: "action list")

record card_content =
  ct_type :: string
  ct_body :: "block list"
  ct_schema :: string
  ct_version :: string

record attachment =
  contentType :: string
  content :: card_content

record card =
  card_type :: string
  attachments :: "attachment list"

text \<open>\<open>card["attachments"][0]["content"]["body"]\<close>, the body list of the first attachment.\<close>

definition card_body :: "card \<Rightarrow> block list" where
  "card_body c = (case attachments c of [] \<Rightarrow> [] | a # _ \<Rightarrow> ct_body (content a))"

text \<open>The bullet character of the item lines, U+2022.\<close>

definition bullet :: ustr where
  "bullet = [0x2022]"

text \<open>The muted line \<open>...and {remaining} more {category}\<close>.\<close>

definition overflow_line :: "nat \<Rightarrow> string \<Rightarrow> block" where
  "overflow_line remaining category =
     TextBlock (asc ''...and '' @ digits remaining @ asc '' more '' @ asc category)
       None None (Some True) (Some True) None"

subsection \<open>_add_jira_section\<close>

record completed_task =
  cp_key :: ustr
  cp_summary :: ustr
  cp_author :: ustr
  cp_time :: ustr

definition ticket_line :: "ticket \<Rightarrow> block" where
  "ticket_line t =
     TextBlock (bullet @ asc '' '' @ tk_key t @ asc '': '' @ tk_summary t @ asc '' (''
                @ tk_status t @ asc '')'')
       None None (Some True) None None"

definition blocked_line :: "task \<Rightarrow> block" where
  "blocked_line t =
     TextBlock (bullet @ asc '' '' @ bt_key t @ asc '': '' @ bt_summary t
                @ asc '' (Assigned to: '' @ bt_assignee t @ asc '')'')
       None None (Some True) None None"

definition completed_line :: "completed_task \<Rightarrow> block" where
  "completed_line t =
     TextBlock (bullet @ asc '' '' @ cp_key t @ asc '': '' @ cp_summary t @ asc '' (by ''
                @ cp_author t @ asc '')'')
       None None (Some True) None None"

definition add_new_tickets :: "block list \<Rightarrow> ticket list \<Rightarrow> block list" where
  "add_new_tickets body tickets =
     (if tickets \<noteq> []
      then
        (let body = body @ [TextBlock ([0x1F4E5] @ asc '' '' @ str_len tickets
                              @ asc '' new tickets were created yesterday:'')
                              None None (Some True) None None];
             body = fold (\<lambda>t b. b @ [ticket_line t]) (take 5 tickets) body
         in if length tickets > 5
            then body @ [overflow_line (length tickets - 5) ''new tickets'']
            else body)
      else body @ [TextBlock (asc ''No new tickets created yesterday.'')
                     None None (Some True) None None])"

definition add_blocked_tasks :: "block list \<Rightarrow> task list \<Rightarrow> block list" where
  "add_blocked_tasks body tasks =
     (if tasks \<noteq> []
      then
        (let body = body @ [TextBlock ([0x26A0, 0xFE0F] @ asc '' '' @ str_len tasks
                              @ asc '' tasks are currently blocked:'')
                              None None (Some True) None (Some ''Medium'')];
             body = fold (\<lambda>t b. b @ [blocked_line t]) (take 5 tasks) body
         in if length tasks > 5
            then body @ [overflow_line (length tasks - 5) ''blocked tasks'']
            else body)
      else body)"

text \<open>
  The scan of every status-change record's transitions: a transition whose destination is
  Done, Closed or Resolved becomes a completed-task entry.
\<close>

definition completed_tasks :: "change list \<Rightarrow> completed_task list" where
  "completed_tasks changes =
     fold (\<lambda>change completed.
             fold (\<lambda>sc completed.
                     if tr_to sc \<in> set [Some (asc ''Done''), Some (asc ''Closed''),
                                        Some (asc ''Resolved'')]
                     then completed @ [\<lparr>cp_key = ch_key change, cp_summary = ch_summary change,
                                         cp_author = tr_author sc, cp_time = tr_time sc\<rparr>]
                     else completed)
               (dict_get (ch_status_changes change) []) completed)
       changes []"

definition add_completed :: "block list \<Rightarrow> change list \<Rightarrow> block list" where
  "add_completed body changes =
     (if changes \<noteq> []
      then
        (let completed = completed_tasks changes
         in if completed \<noteq> []
            then
              (let body = body @ [TextBlock ([0x2705] @ asc '' '' @ str_len completed
                                    @ asc '' tasks were completed yesterday:'')
                                    None None (Some True) None (Some ''Medium'')];
                   body = fold (\<lambda>t b. b @ [completed_line t]) (take 5 completed) body
               in if length completed > 5
                  then body @ [overflow_line (length completed - 5) ''completed tasks'']
                  else body)
            else body)
      else body)"

definition add_jira_section :: "block list \<Rightarrow> jira_data \<Rightarrow> block list" where
  "add_jira_section body jira_data =
     (let body = body @ [TextBlock ([0x1F9E9] @ asc '' Jira Updates'')
                           (Some ''Bolder'') (Some ''Medium'') None None (Some ''Medium'')];
          body = add_new_tickets body (dict_get (new_tickets jira_data) []);
          body = add_blocked_tasks body (dict_get (blocked_tasks jira_data) [])
      in add_completed body (dict_get (status_changes jira_data) []))"

subsection \<open>_add_github_section\<close>

text \<open>\<open>pr.get("reviewers")\<close>: an absent key and an empty list are both falsy.\<close>

definition reviewer_text :: "pr_record \<Rightarrow> ustr" where
  "reviewer_text pr =
     (let reviewers = dict_get (pr_reviewers pr) []
      in if reviewers \<noteq> []
         then asc '' (Reviewers: '' @ join (asc '', '') (take 2 reviewers) @ asc '')''
              @ (if length reviewers > 2
                 then asc '' +'' @ digits (length reviewers - 2) @ asc '' more'' else [])
         else [])"

definition open_pr_line :: "pr_record \<Rightarrow> block" where
  "open_pr_line pr =
     TextBlock (bullet @ asc '' #'' @ str_int (pr_number pr) @ asc '': '' @ pr_title pr
                @ asc '' by '' @ pr_author pr @ reviewer_text pr)
       None None (Some True) None None"

definition merge_line :: "merge_record \<Rightarrow> block" where
  "merge_line pr =
     TextBlock (bullet @ asc '' #'' @ str_int (mr_number pr) @ asc '': '' @ mr_title pr
                @ asc '' by '' @ mr_author pr)
       None None (Some True) None None"

definition commit_line :: "commit_record \<Rightarrow> block" where
  "commit_line c =
     TextBlock (bullet @ asc '' '' @ cr_sha c @ asc '': '' @ cr_message c @ asc '' by ''
                @ cr_author c)
       None None (Some True) None None"

definition add_open_prs :: "block list \<Rightarrow> pr_record list \<Rightarrow> block list" where
  "add_open_prs body prs =
     (if prs \<noteq> []
      then
        (let body = body @ [TextBlock ([0x1F504] @ asc '' '' @ str_len prs
                              @ asc '' open pull requests waiting for review:'')
                              None None (Some True) None None];
             body = fold (\<lambda>pr b. b @ [open_pr_line pr]) (take 5 prs) body
         in if length prs > 5
            then body @ [overflow_line (length prs - 5) ''open PRs'']
            else body)
      else body @ [TextBlock (asc ''No open pull requests waiting for review.'')
                     None None (Some True) None None])"

definition merges_header :: "nat \<Rightarrow> block" where
  "merges_header n =
     TextBlock ([0x2705] @ asc '' '' @ digits n @ asc '' pull requests were merged yesterday:'')
       None None (Some True) None (Some ''Medium'')"

definition add_recent_merges :: "block list \<Rightarrow> merge_record list \<Rightarrow> block list" where
  "add_recent_merges body merges =
     (if merges \<noteq> []
      then
        (let body = body @ [merges_header (length merges)];
             body = fold (\<lambda>pr b. b @ [merge_line pr]) (take 5 merges) body
         in if length merges > 5
            then body @ [overflow_line (length merges - 5) ''merged PRs'']
            else body)
      else body)"

definition add_urgent_commits :: "block list \<Rightarrow> commit_record list \<Rightarrow> block list" where
  "add_urgent_commits body commits =
     (if commits \<noteq> []
      then
        (let body = body @ [TextBlock ([0x1F6A8] @ asc '' '' @ str_len commits
                              @ asc '' urgent commits detected yesterday:'')
                              None None (Some True) None (Some ''Medium'')];
             body = fold (\<lambda>c b. b @ [commit_line c]) (take 5 commits) body
         in if length commits > 5
            then body @ [overflow_line (length commits - 5) ''urgent commits'']
            else body)
      else body)"

definition add_github_section :: "block list \<Rightarrow> github_data \<Rightarrow> block list" where
  "add_github_section body github_data =
     (let body = body @ [TextBlock ([0x1F6E0, 0xFE0F] @ asc '' GitHub Activity'')
                           (Some ''Bolder'') (Some ''Medium'') None None (Some ''Medium'')];
          body = add_open_prs body (dict_get (open_prs github_data) []);
          body = add_recent_merges body (dict_get (recent_merges github_data) [])
      in add_urgent_commits body (dict_get (urgent_commits github_data) []))"

subsection \<open>_add_pr_analyses_section\<close>

definition analysis_text_block :: "ustr \<Rightarrow> block" where
  "analysis_text_block analysis_text =
     (if length analysis_text > 500
      then TextBlock (take 500 analysis_text @ asc ''...'') None None (Some True) None None
      else TextBlock analysis_text None None (Some True) None None)"

definition analysis_blocks :: "analysis_record \<Rightarrow> block list" where
  "analysis_blocks analysis =
     (let number = an_pr_number analysis;
          repo = dict_get (an_repo analysis) [];
          title = dict_get (an_title analysis) (asc ''Untitled PR'');
          author = dict_get (an_author analysis) (asc ''Unknown'');
          analysis_text = dict_get (an_analysis analysis) (asc ''No analysis available'');
          url = dict_get (an_url analysis) []
      in [TextBlock (asc ''**PR #'' @ fmt_int number @ asc '': '' @ title @ asc ''**'')
            (Some ''Bolder'') None (Some True) None (Some ''Medium''),
          TextBlock (asc ''Repository: '' @ repo @ asc '' | Author: '' @ author)
            None None (Some True) (Some True) None,
          TextBlock (asc ''---'') None None (Some True) None None,
          analysis_text_block analysis_text]
         @ (if url \<noteq> [] then [ActionSet [OpenUrl (asc ''View Pull Request'') url]] else []))"

definition add_pr_analyses_section :: "block list \<Rightarrow> analysis_record list \<Rightarrow> block list" where
  "add_pr_analyses_section body analyses =
     (let body = body @ [TextBlock ([0x1F50D] @ asc '' Pull Request Analyses'')
                           (Some ''Bolder'') (Some ''Medium'') None None (Some ''Medium'')]
      in if analyses = []
         then body @ [TextBlock (asc ''No PR analyses available.'')
                        None None (Some True) None None]
         else
           (let body = fold (\<lambda>a b. b @ analysis_blocks a) (take 3 analyses) body
            in if length analyses > 3
               then body @ [TextBlock (asc ''...and '' @ digits (length analyses - 3)
                                       @ asc '' more PR analyses'')
                              None None (Some True) (Some True) (Some ''Small'')]
               else body))"

subsection \<open>_add_database_section\<close>

definition stat :: "(string \<times> int) list \<Rightarrow> string \<Rightarrow> ustr" where
  "stat d k = str_int (dict_get (map_of d k) 0)"

definition add_database_section :: "block list \<Rightarrow> db_data \<Rightarrow> block list" where
  "add_database_section body db =
     (let stats = dict_get (activity_stats db) []
      in if stats = [] then body
         else
           (let body = body @ [TextBlock ([0x1F4CA] @ asc '' Weekly Database Insights'')
                                 (Some ''Bolder'') (Some ''Medium'') None None
                                 (Some ''Medium'')];
                weekly_stats_text =
                  bullet @ asc '' '' @ stat stats ''weekly_prs'' @ asc '' PRs this week\<newline>''
                  @ bullet @ asc '' '' @ stat stats ''weekly_tickets''
                  @ asc '' tickets created\<newline>''
                  @ bullet @ asc '' '' @ stat stats ''weekly_completed''
                  @ asc '' tickets completed\<newline>'';
                body = body @ [TextBlock weekly_stats_text None None (Some True) None None];
                metrics = dict_get (team_metrics db) []
            in if metrics \<noteq> []
               then body @ [TextBlock (asc ''Team size: '' @ stat metrics ''member_count''
                                       @ asc '' members | '' @ stat metrics ''github_users''
                                       @ asc '' using GitHub'')
                              None None (Some True) (Some True) None]
               else body))"

subsection \<open>format_daily_digest\<close>

text \<open>
  Truthiness of the three dictionaries and of their values. A dictionary is truthy when it
  has a key; \<open>any(d.values())\<close> holds when one of its values is truthy, that is a
  non-empty list or dictionary.
\<close>

definition truthy :: "'a list option \<Rightarrow> bool" where
  "truthy v = (case v of None \<Rightarrow> False | Some xs \<Rightarrow> xs \<noteq> [])"

definition jira_nonempty :: "jira_data \<Rightarrow> bool" where
  "jira_nonempty j =
     (new_tickets j \<noteq> None \<or> blocked_tasks j \<noteq> None \<or> status_changes j \<noteq> None)"

definition jira_any :: "jira_data \<Rightarrow> bool" where
  "jira_any j = (truthy (new_tickets j) \<or> truthy (blocked_tasks j) \<or> truthy (status_changes j))"

definition github_nonempty :: "github_data \<Rightarrow> bool" where
  "github_nonempty g =
     (open_prs g \<noteq> None \<or> recent_merges g \<noteq> None \<or> urgent_commits g \<noteq> None
      \<or> pr_analyses g \<noteq> None)"

definition github_any :: "github_data \<Rightarrow> bool" where
  "github_any g =
     (truthy (open_prs g) \<or> truthy (recent_merges g) \<or> truthy (urgent_commits g)
      \<or> truthy (pr_analyses g))"

definition db_nonempty :: "db_data \<Rightarrow> bool" where
  "db_nonempty db = (activity_stats db \<noteq> None \<or> team_metrics db \<noteq> None)"

definition db_any :: "db_data \<Rightarrow> bool" where
  "db_any db = (truthy (activity_stats db) \<or> truthy (team_metrics db))"

definition quiet_day_block :: block where
  "quiet_day_block =
     TextBlock (asc ''No updates found for today. It's a quiet day! '' @ [0x1F60A])
       None None (Some True) None (Some ''Medium'')"

text \<open>
  The body list is the only part of the card the operation changes, so the sections pass
  the body along and the card is built around the finished body.
\<close>

definition digest_body :: "ustr \<Rightarrow> digest_data \<Rightarrow> ustr \<Rightarrow> block list" where
  "digest_body team_name data ai_summary =
     (let body = [TextBlock ([0x1F305] @ asc '' Good morning, '' @ team_name @ asc ''!'')
                    (Some ''Bolder'') (Some ''Large'') (Some True) None None,
                  TextBlock (asc ''Here's your daily project digest:'')
                    None None (Some True) None None];
          body = (if ai_summary \<noteq> []
                  then body @ [TextBlock ([0x1F4A1] @ asc '' AI Summary'')
                                 (Some ''Bolder'') (Some ''Medium'') None None (Some ''Medium''),
                               TextBlock ai_summary None None (Some True) None None]
                  else body);
          jira_data = dict_get (jira data) empty_jira;
          body = (if jira_nonempty jira_data \<and> jira_any jira_data
                  then add_jira_section body jira_data else body);
          github_data = dict_get (github data) empty_github;
          body = (if github_nonempty github_data \<and> github_any github_data
                  then
                    (let body = add_github_section body github_data
                     in if truthy (pr_analyses github_data)
                        then add_pr_analyses_section body (dict_get (pr_analyses github_data) [])
                        else body)
                  else body);
          db = dict_get (database data) empty_db;
          body = (if db_nonempty db \<and> db_any db then add_database_section body db else body)
      in if (\<not> jira_nonempty jira_data \<or> \<not> jira_any jira_data)
            \<and> (\<not> github_nonempty github_data \<or> \<not> github_any github_data)
         then body @ [quiet_day_block]
         else body)"

definition format_daily_digest :: "ustr \<Rightarrow> digest_data \<Rightarrow> ustr \<Rightarrow> card" where
  "format_daily_digest team_name data ai_summary =
     \<lparr>card_type = ''message'',
      attachments =
        [\<lparr>contentType = ''application/vnd.microsoft.card.adaptive'',
          content = \<lparr>ct_type = ''AdaptiveCard'',
                     ct_body = digest_body team_name data ai_summary,
                     ct_schema = ''http://adaptivecards.io/schemas/adaptive-card.json'',
                     ct_version = ''1.2''\<rparr>\<rparr>]\<rparr>"

section \<open>Source-hosting collector (github_collector.py)\<close>

subsection \<open>String operations the collector uses\<close>

text \<open>\<open>s.split(",")\<close>: the pieces between the separators; an empty string gives \<open>[""]\<close>.\<close>

fun split_on :: "nat \<Rightarrow> ustr \<Rightarrow> ustr list" where
  "split_on c [] = [[]]"
| "split_on c (x # xs) =
     (if x = c then [] # split_on c xs
      else (case split_on c xs of [] \<Rightarrow> [[x]] | y # ys \<Rightarrow> (x # y) # ys))"

text \<open>The code points \<open>str.strip()\<close> removes from both ends.\<close>

definition is_space :: "nat \<Rightarrow> bool" where
  "is_space c =
     ((0x09 \<le> c \<and> c \<le> 0x0D) \<or> (0x1C \<le> c \<and> c \<le> 0x20) \<or> c = 0x85 \<or> c = 0xA0
      \<or> c = 0x1680 \<or> (0x2000 \<le> c \<and> c \<le> 0x200A) \<or> c = 0x2028 \<or> c = 0x2029
      \<or> c = 0x202F \<or> c = 0x205F \<or> c = 0x3000)"

definition strip :: "ustr \<Rightarrow> ustr" where
  "strip s = rev (dropWhile is_space (rev (dropWhile is_space s)))"

text \<open>
  \<open>str.lower()\<close> on the ASCII letters and on the two other code points whose lower-case
  form holds an ASCII letter (U+0130 and U+212A). The lower-case forms of the remaining
  letters hold no ASCII letter and are left as they are; the collector compares lowered
  text with ASCII words only.
\<close>

definition lower_cp :: "nat \<Rightarrow> ustr" where
  "lower_cp c =
     (if 65 \<le> c \<and> c \<le> 90 then [c + 32]
      else if c = 0x130 then [105, 0x307]
      else if c = 0x212A then [107]
      else [c])"

definition lower :: "ustr \<Rightarrow> ustr" where
  "lower s = concat (map lower_cp s)"

subsection \<open>The platform, the process environment and the clock\<close>

text \<open>
  What the client library returns. A call that goes to the network either raises or
  yields its value, so it is a value of \<open>error + _\<close>; a paginated list raises or
  yields all its items. An instant is a number of seconds.
\<close>

record gh_file =
  gf_filename :: ustr
  gf_status :: ustr
  gf_additions :: int
  gf_deletions :: int
  gf_patch :: "ustr option"

record pull =
  pull_number :: int
  pull_title :: ustr
  pull_html_url :: ustr
  pull_user :: "ustr option"
  pull_body :: "ustr option"
  pull_created_at :: int
  pull_merged :: bool
  pull_merged_at :: "int option"
  pull_merged_by :: "ustr option"
  pull_review_requests :: "error + ustr list"
  pull_files :: "error + gh_file list"

record commit =
  commit_sha :: ustr
  commit_message :: ustr
  commit_html_url :: ustr
  commit_author :: "ustr option"
  commit_git_author :: "error + ustr \<times> int"

record repo =
  open_pulls :: "error + pull list"
  closed_pulls :: "error + pull list"
  get_commits :: "int \<Rightarrow> error + commit list"
  get_pull :: "int \<Rightarrow> error + pull"

type_synonym github_client = "ustr \<Rightarrow> error + repo"

record world =
  GITHUB_TOKEN :: "ustr option"
  GITHUB_REPOS :: "ustr option"
  ENABLE_PR_ANALYSIS :: "ustr option"
  Github :: "ustr \<Rightarrow> error + github_client"
  now :: int
  strftime :: "string \<Rightarrow> int \<Rightarrow> ustr"

record collector =
  github_token :: "ustr option"
  repos :: "ustr list"
  ai_summarizer :: "summarizer option"
  client :: "github_client option"

subsection \<open>__init__\<close>

definition init :: "world \<Rightarrow> collector" where
  "init w =
     \<lparr>github_token = GITHUB_TOKEN w,
      repos = split_on 44 (dict_get (GITHUB_REPOS w) []),
      ai_summarizer = None,
      client =
        (case GITHUB_TOKEN w of
           None \<Rightarrow> None
         | Some token \<Rightarrow>
             if token \<noteq> []
             then (case Github w token of Inl e \<Rightarrow> None | Inr c \<Rightarrow> Some c)
             else None)\<rparr>"

subsection \<open>The guard and the loop over the repositories\<close>

text \<open>\<open>not self.client or not self.repos or self.repos == [""]\<close>.\<close>

definition disabled :: "collector \<Rightarrow> bool" where
  "disabled c = (client c = None \<or> repos c = [] \<or> repos c = [[]])"

text \<open>
  The loop \<open>for repo_name in self.repos\<close>, common to the three scans: the name is stripped,
  an empty name is skipped, and the records of the repository are appended to the result.
  An exception of the scan leaves the loop.
\<close>

fun for_repos :: "(ustr \<Rightarrow> error + 'a list) \<Rightarrow> ustr list \<Rightarrow> 'a list \<Rightarrow> error + 'a list" where
  "for_repos scan [] acc = Inr acc"
| "for_repos scan (repo_name # rest) acc =
     (let repo_name = strip repo_name
      in if repo_name = [] then for_repos scan rest acc
         else (case scan repo_name of
                 Inl e \<Rightarrow> Inl e
               | Inr found \<Rightarrow> for_repos scan rest (acc @ found)))"

text \<open>\<open>try: ... except Exception: return []\<close> around a scan.\<close>

definition or_empty :: "error + 'a list \<Rightarrow> error + 'a list" where
  "or_empty r = (case r of Inl e \<Rightarrow> Inr [] | Inr xs \<Rightarrow> Inr xs)"

subsection \<open>get_open_prs\<close>

definition open_pr_data :: "world \<Rightarrow> ustr \<Rightarrow> pull \<Rightarrow> pr_record" where
  "open_pr_data w repo_name pr =
     (let reviewers = (case pull_review_requests pr of Inl e \<Rightarrow> [] | Inr logins \<Rightarrow> logins)
      in \<lparr>pr_number = pull_number pr,
          pr_title = pull_title pr,
          pr_url = pull_html_url pr,
          pr_author = dict_get (pull_user pr) (asc ''Unknown''),
          pr_created_at = strftime w ''%Y-%m-%d'' (pull_created_at pr),
          pr_days_open = (now w - pull_created_at pr) div 86400,
          pr_repository = repo_name,
          pr_reviewers = Some reviewers\<rparr>)"

definition scan_open_prs :: "world \<Rightarrow> github_client \<Rightarrow> ustr \<Rightarrow> error + pr_record list" where
  "scan_open_prs w cl repo_name =
     (case cl repo_name of
        Inl e \<Rightarrow> Inl e
      | Inr repo \<Rightarrow>
          (case open_pulls repo of
             Inl e \<Rightarrow> Inl e
           | Inr pulls \<Rightarrow> Inr (map (open_pr_data w repo_name) pulls)))"

definition get_open_prs :: "world \<Rightarrow> collector \<Rightarrow> error + pr_record list" where
  "get_open_prs w c =
     (case client c of
        None \<Rightarrow> Inr []
      | Some cl \<Rightarrow>
          if disabled c then Inr []
          else or_empty (for_repos (scan_open_prs w cl) (repos c) []))"

subsection \<open>get_recent_merges\<close>

text \<open>
  The module imports the class with \<open>from datetime import datetime, timedelta\<close>, so in
  \<open>datetime.now(datetime.timezone.utc)\<close> the name \<open>datetime\<close> is the class
  \<open>datetime.datetime\<close>, which has no attribute \<open>timezone\<close>: the attribute access raises.
  The statement stands before the \<open>try\<close>.
\<close>

definition datetime_timezone :: "error + unit" where
  "datetime_timezone =
     Inl (AttributeError
            (asc ''type object 'datetime.datetime' has no attribute 'timezone'' @ [39]))"

text \<open>\<open>pr.merged and pr.merged_at and pr.merged_at > yesterday\<close>.\<close>

definition merge_qualifies :: "int \<Rightarrow> pull \<Rightarrow> bool" where
  "merge_qualifies yesterday pr =
     (pull_merged pr
      \<and> (case pull_merged_at pr of None \<Rightarrow> False | Some t \<Rightarrow> t > yesterday))"

text \<open>The record of a pull request that passed the test, so one with a merge time.\<close>

definition merge_data :: "world \<Rightarrow> ustr \<Rightarrow> pull \<Rightarrow> merge_record" where
  "merge_data w repo_name pr =
     \<lparr>mr_number = pull_number pr,
      mr_title = pull_title pr,
      mr_url = pull_html_url pr,
      mr_author = dict_get (pull_user pr) (asc ''Unknown''),
      mr_merged_at = strftime w ''%Y-%m-%d %H:%M'' (dict_get (pull_merged_at pr) 0),
      mr_repository = repo_name,
      mr_merged_by = dict_get (pull_merged_by pr) (asc ''Unknown'')\<rparr>"

definition scan_merges ::
  "world \<Rightarrow> github_client \<Rightarrow> int \<Rightarrow> ustr \<Rightarrow> error + merge_record list" where
  "scan_merges w cl yesterday repo_name =
     (case cl repo_name of
        Inl e \<Rightarrow> Inl e
      | Inr repo \<Rightarrow>
          (case closed_pulls repo of
             Inl e \<Rightarrow> Inl e
           | Inr pulls \<Rightarrow>
               Inr (map (merge_data w repo_name) (filter (merge_qualifies yesterday) pulls))))"

definition get_recent_merges :: "world \<Rightarrow> collector \<Rightarrow> error + merge_record list" where
  "get_recent_merges w c =
     (case client c of
        None \<Rightarrow> Inr []
      | Some cl \<Rightarrow>
          if disabled c then Inr []
          else
            (case datetime_timezone of
               Inl e \<Rightarrow> Inl e
             | Inr utc \<Rightarrow>
                 (let yesterday = now w - 86400
                  in or_empty (for_repos (scan_merges w cl yesterday) (repos c) []))))"

subsection \<open>get_urgent_commits\<close>

definition urgent_keywords :: "ustr list" where
  "urgent_keywords =
     [asc ''fix'', asc ''hotfix'', asc ''urgent'', asc ''emergency'', asc ''critical'',
      asc ''bug'']"

text \<open>\<open>keyword in message\<close>: the keyword occurs as a contiguous piece of the message.\<close>

fun contains :: "ustr \<Rightarrow> ustr \<Rightarrow> bool" where
  "contains [] keyword = (keyword = [])"
| "contains (x # xs) keyword = (take (length keyword) (x # xs) = keyword \<or> contains xs keyword)"

definition is_urgent :: "commit \<Rightarrow> bool" where
  "is_urgent commit =
     (let message = lower (commit_message commit)
      in list_ex (\<lambda>keyword. contains message keyword) urgent_keywords)"

text \<open>
  The inner \<open>try\<close>: a commit whose data cannot be read is skipped (the empty list), the
  scan goes on.
\<close>

definition commit_data :: "world \<Rightarrow> ustr \<Rightarrow> commit \<Rightarrow> commit_record list" where
  "commit_data w repo_name commit =
     (case commit_git_author commit of
        Inl e \<Rightarrow> []
      | Inr (name, date) \<Rightarrow>
          [\<lparr>cr_sha = take 7 (commit_sha commit),
            cr_message = takeWhile (\<lambda>ch. ch \<noteq> 10) (commit_message commit),
            cr_url = commit_html_url commit,
            cr_author = dict_get (commit_author commit) name,
            cr_date = strftime w ''%Y-%m-%d %H:%M'' date,
            cr_repository = repo_name\<rparr>])"

definition scan_commits ::
  "world \<Rightarrow> github_client \<Rightarrow> int \<Rightarrow> ustr \<Rightarrow> error + commit_record list" where
  "scan_commits w cl yesterday repo_name =
     (case cl repo_name of
        Inl e \<Rightarrow> Inl e
      | Inr repo \<Rightarrow>
          (case get_commits repo yesterday of
             Inl e \<Rightarrow> Inl e
           | Inr commits \<Rightarrow>
               Inr (concat (map (commit_data w repo_name) (filter is_urgent commits)))))"

definition get_urgent_commits :: "world \<Rightarrow> collector \<Rightarrow> error + commit_record list" where
  "get_urgent_commits w c =
     (case client c of
        None \<Rightarrow> Inr []
      | Some cl \<Rightarrow>
          if disabled c then Inr []
          else
            (let yesterday = now w - 86400
             in or_empty (for_repos (scan_commits w cl yesterday) (repos c) [])))"

subsection \<open>analyze_pr\<close>

definition file_data :: "gh_file \<Rightarrow> changed_file" where
  "file_data f =
     \<lparr>cf_filename = Some (gf_filename f),
      cf_status = Some (gf_status f),
      cf_additions = Some (gf_additions f),
      cf_deletions = Some (gf_deletions f),
      cf_patch = gf_patch f\<rparr>"

text \<open>The snapshot: every key is written, \<open>body\<close> with whatever \<open>pr.body\<close> holds.\<close>

definition snapshot :: "world \<Rightarrow> pull \<Rightarrow> gh_file list \<Rightarrow> diff_data" where
  "snapshot w pr files =
     \<lparr>dd_title = Some (pull_title pr),
      dd_body = Some (pull_body pr),
      dd_user = Some (dict_get (pull_user pr) (asc ''Unknown'')),
      dd_created_at = Some (strftime w ''%Y-%m-%d'' (pull_created_at pr)),
      dd_files = Some (map file_data files)\<rparr>"

text \<open>
  The prompt the collector builds itself; its statements are those of
  \<open>_build_pr_analysis_prompt\<close>, character for character.
\<close>

definition analyze_pr_prompt :: "diff_data \<Rightarrow> ustr" where
  "analyze_pr_prompt d =
     fold (\<lambda>f prompt. prompt @ file_entry f) (dict_get (dd_files d) []) (prompt_head d)"

definition unavailable_text :: "ustr \<Rightarrow> int \<Rightarrow> ustr \<Rightarrow> ustr" where
  "unavailable_text repo_name number title =
     asc ''PR Analysis for '' @ repo_name @ asc ''#'' @ str_int number @ asc '': '' @ title
     @ asc ''\<newline>''
     @ asc ''AI analysis is currently unavailable.\<newline>''
     @ asc ''Enable AI analysis by setting up AWS Bedrock integration.\<newline>''"

text \<open>
  The body of the \<open>try\<close>: the prompt, which goes to the debug log, and the record that is
  returned.
\<close>

definition analyze_pr_try ::
  "world \<Rightarrow> collector \<Rightarrow> github_client \<Rightarrow> ustr \<Rightarrow> int \<Rightarrow> error + ustr \<times> analysis_record" where
  "analyze_pr_try w c cl repo_name number =
     (case cl repo_name of
        Inl e \<Rightarrow> Inl e
      | Inr repo \<Rightarrow>
          (case get_pull repo number of
             Inl e \<Rightarrow> Inl e
           | Inr pr \<Rightarrow>
               (case pull_files pr of
                  Inl e \<Rightarrow> Inl e
                | Inr files \<Rightarrow>
                    (let diff = snapshot w pr files;
                         prompt = analyze_pr_prompt diff;
                         analysis_text =
                           (case ai_summarizer c of
                              Some s \<Rightarrow> analyze_pr_diff s diff
                            | None \<Rightarrow> unavailable_text repo_name number (pull_title pr))
                     in Inr (prompt,
                             \<lparr>an_pr_number = Some number,
                              an_repo = Some repo_name,
                              an_title = dd_title diff,
                              an_author = dd_user diff,
                              an_analysis = Some analysis_text,
                              an_url = Some (pull_html_url pr)\<rparr>)))))"

text \<open>The result is the record, or \<open>None\<close> for the empty dictionary \<open>{}\<close>.\<close>

definition analyze_pr ::
  "world \<Rightarrow> collector \<Rightarrow> ustr \<Rightarrow> int \<Rightarrow> error + analysis_record option" where
  "analyze_pr w c repo_name number =
     (case client c of
        None \<Rightarrow> Inr None
      | Some cl \<Rightarrow>
          (case analyze_pr_try w c cl repo_name number of
             Inl e \<Rightarrow> Inr None
           | Inr (prompt, analysis) \<Rightarrow> Inr (Some analysis)))"

subsection \<open>get_pr_analyses\<close>

fun analyze_each ::
  "world \<Rightarrow> collector \<Rightarrow> pr_record list \<Rightarrow> analysis_record list \<Rightarrow> error + analysis_record list"
  where
  "analyze_each w c [] analyses = Inr analyses"
| "analyze_each w c (pr # rest) analyses =
     (if pr_repository pr \<noteq> [] \<and> pr_number pr \<noteq> 0
      then (case analyze_pr w c (pr_repository pr) (pr_number pr) of
              Inl e \<Rightarrow> Inl e
            | Inr None \<Rightarrow> analyze_each w c rest analyses
            | Inr (Some analysis) \<Rightarrow> analyze_each w c rest (analyses @ [analysis]))
      else analyze_each w c rest analyses)"

definition get_pr_analyses :: "world \<Rightarrow> collector \<Rightarrow> error + analysis_record list" where
  "get_pr_analyses w c =
     (case client c of
        None \<Rightarrow> Inr []
      | Some cl \<Rightarrow>
          if disabled c then Inr []
          else or_empty
                 (case get_open_prs w c of
                    Inl e \<Rightarrow> Inl e
                  | Inr prs \<Rightarrow> analyze_each w c (take 3 prs) []))"

subsection \<open>collect\<close>

definition collect :: "world \<Rightarrow> collector \<Rightarrow> error + github_data" where
  "collect w c =
     (case get_open_prs w c of
        Inl e \<Rightarrow> Inl e
      | Inr prs \<Rightarrow>
          (case get_recent_merges w c of
             Inl e \<Rightarrow> Inl e
           | Inr merges \<Rightarrow>
               (case get_urgent_commits w c of
                  Inl e \<Rightarrow> Inl e
                | Inr commits \<Rightarrow>
                    (let data = \<lparr>open_prs = Some prs, recent_merges = Some merges,
                                 urgent_commits = Some commits, pr_analyses = None\<rparr>
                     in if lower (dict_get (ENABLE_PR_ANALYSIS w) (asc ''false'')) = asc ''true''
                        then (case get_pr_analyses w c of
                                Inl e \<Rightarrow> Inl e
                              | Inr analyses \<Rightarrow> Inr (data\<lparr>pr_analyses := Some analyses\<rparr>))
                        else Inr data))))"

section \<open>Reading the payload\<close>

text \<open>
  How a reader of the card tells the blocks of the merged-PRs part from the others: the
  count line by its check mark and wording, an item line by its bullet and number sign,
  the overflow line by its wording. The rendered merge lines are the item lines that
  follow the count line.
\<close>

definition is_merges_header :: "block \<Rightarrow> bool" where
  "is_merges_header b =
     (case b of
        TextBlock t w s wr sub sp \<Rightarrow>
          w = None \<and> sp = Some ''Medium'' \<and> prefix (0x2705 # asc '' '') t
          \<and> suffix (asc '' pull requests were merged yesterday:'') t
      | ActionSet acts \<Rightarrow> False)"

definition is_merge_line :: "block \<Rightarrow> bool" where
  "is_merge_line b =
     (case b of
        TextBlock t w s wr sub sp \<Rightarrow>
          w = None \<and> sub = None \<and> sp = None \<and> prefix (bullet @ asc '' #'') t
      | ActionSet acts \<Rightarrow> False)"

definition is_merged_overflow :: "block \<Rightarrow> bool" where
  "is_merged_overflow b =
     (case b of
        TextBlock t w s wr sub sp \<Rightarrow>
          sub = Some True \<and> prefix (asc ''...and '') t \<and> suffix (asc '' more merged PRs'') t
      | ActionSet acts \<Rightarrow> False)"

fun after_merges_header :: "block list \<Rightarrow> block list" where
  "after_merges_header [] = []"
| "after_merges_header (b # bs) = (if is_merges_header b then bs else after_merges_header bs)"

definition rendered_merge_lines :: "block list \<Rightarrow> block list" where
  "rendered_merge_lines body = takeWhile is_merge_line (after_merges_header body)"

section \<open>Sample inputs\<close>

text \<open>A pull request without description, merged two hours before the collection.\<close>

definition sample_pull :: pull where
  "sample_pull =
     \<lparr>pull_number = 42, pull_title = asc ''Add retry'',
      pull_html_url = asc ''https://example.test/42'',
      pull_user = Some (asc ''dana''), pull_body = None, pull_created_at = 1699900000,
      pull_merged = True, pull_merged_at = Some (1700000000 - 7200),
      pull_merged_by = Some (asc ''lee''),
      pull_review_requests = Inr [],
      pull_files = Inr [\<lparr>gf_filename = asc ''retry.py'', gf_status = asc ''modified'',
                          gf_additions = 3, gf_deletions = 1, gf_patch = Some (asc ''+x'')\<rparr>]\<rparr>"

definition sample_repo :: repo where
  "sample_repo =
     \<lparr>open_pulls = Inr [sample_pull], closed_pulls = Inr [sample_pull],
      get_commits = (\<lambda>since. Inr []), get_pull = (\<lambda>n. Inr sample_pull)\<rparr>"

text \<open>A process with a token and one repository, and a platform that answers.\<close>

definition live_world :: world where
  "live_world =
     \<lparr>GITHUB_TOKEN = Some (asc ''t0ken''), GITHUB_REPOS = Some (asc ''acme/api''),
      ENABLE_PR_ANALYSIS = None,
      Github = (\<lambda>token. Inr (\<lambda>name. Inr sample_repo)),
      now = 1700000000, strftime = (\<lambda>fmt t. asc ''2023-11-14'')\<rparr>"

text \<open>A process without a token.\<close>

definition quiet_world :: world where
  "quiet_world =
     \<lparr>GITHUB_TOKEN = None, GITHUB_REPOS = Some (asc ''acme/api''),
      ENABLE_PR_ANALYSIS = Some (asc ''TRUE''),
      Github = (\<lambda>token. Inl (ExternalError (asc ''no network''))),
      now = 1700000000, strftime = (\<lambda>fmt t. asc ''2023-11-14'')\<rparr>"

text \<open>A snapshot with a patch of exactly 3000 characters and a short one.\<close>

definition big_file :: changed_file where
  "big_file =
     \<lparr>cf_filename = Some (asc ''retry.py''), cf_status = Some (asc ''modified''),
      cf_additions = Some 120, cf_deletions = Some 0, cf_patch = Some (replicate 3000 43)\<rparr>"

definition small_file :: changed_file where
  "small_file =
     \<lparr>cf_filename = Some (asc ''util.py''), cf_status = Some (asc ''added''),
      cf_additions = Some 1, cf_deletions = Some 0, cf_patch = Some (asc ''+x'')\<rparr>"

definition two_files :: diff_data where
  "two_files =
     \<lparr>dd_title = Some (asc ''Add retry''), dd_body = Some (Some (asc ''Retries.'')),
      dd_user = Some (asc ''dana''), dd_created_at = Some (asc ''2023-11-14''),
      dd_files = Some [big_file, small_file]\<rparr>"

text \<open>Digest data: no activity, three new tickets, merges only, statistics only, analyses only.\<close>

definition no_activity :: digest_data where
  "no_activity =
     \<lparr>jira = None,
      github = Some \<lparr>open_prs = Some [], recent_merges = Some [], urgent_commits = None,
                     pr_analyses = None\<rparr>,
      database = None\<rparr>"

definition three_tickets :: digest_data where
  "three_tickets =
     \<lparr>jira = Some \<lparr>new_tickets = Some (replicate 3 \<lparr>tk_key = asc ''OPS-7'',
                                                     tk_summary = asc ''Rotate keys'',
                                                     tk_status = asc ''Open''\<rparr>),
                   blocked_tasks = Some [], status_changes = None\<rparr>,
      github = None, database = None\<rparr>"

definition sample_merge :: "int \<Rightarrow> merge_record" where
  "sample_merge n =
     \<lparr>mr_number = n, mr_title = asc ''Fix cache'', mr_url = asc ''https://example.test/pr'',
      mr_author = asc ''dana'', mr_merged_at = asc ''2023-11-14 09:30'',
      mr_repository = asc ''acme/api'', mr_merged_by = asc ''lee''\<rparr>"

definition merges_only :: "merge_record list \<Rightarrow> github_data" where
  "merges_only ms =
     \<lparr>open_prs = Some [], recent_merges = Some ms, urgent_commits = Some [],
      pr_analyses = None\<rparr>"

definition github_only :: "github_data \<Rightarrow> digest_data" where
  "github_only g = \<lparr>jira = None, github = Some g, database = None\<rparr>"

definition stats_only :: digest_data where
  "stats_only =
     \<lparr>jira = Some \<lparr>new_tickets = Some [], blocked_tasks = None, status_changes = None\<rparr>,
      github = None,
      database = Some \<lparr>activity_stats = Some [(''weekly_prs'', 4)], team_metrics = None\<rparr>\<rparr>"

definition sample_analysis :: "ustr \<Rightarrow> analysis_record" where
  "sample_analysis t =
     \<lparr>an_pr_number = Some 42, an_repo = Some (asc ''acme/api''),
      an_title = Some (asc ''Add retry''), an_author = Some (asc ''dana''),
      an_analysis = Some t, an_url = Some (asc ''https://example.test/42'')\<rparr>"

definition analyses_only :: "analysis_record list \<Rightarrow> digest_data" where
  "analyses_only as =
     \<lparr>jira = None,
      github = Some \<lparr>open_prs = Some [], recent_merges = Some [], urgent_commits = Some [],
                     pr_analyses = Some as\<rparr>,
      database = None\<rparr>"

section \<open>Loops that append\<close>

lemma fold_snoc: "fold (\<lambda>x b. b @ [f x]) xs body = body @ map f xs"
  by (induction xs arbitrary: body) simp_all

lemma fold_app: "fold (\<lambda>x b. b @ g x) xs body = body @ concat (map g xs)"
  by (induction xs arbitrary: body) simp_all

lemma sublist_concat_map: "a \<in> set xs \<Longrightarrow> sublist (f a) (concat (map f xs))"
proof -
  assume "a \<in> set xs"
  then obtain ys zs where "xs = ys @ a # zs" by (auto simp: in_set_conv_decomp)
  then have "concat (map f xs) = concat (map f ys) @ f a @ concat (map f zs)" by simp
  then show ?thesis by (simp only: sublist_appendI)
qed

section \<open>The fallback summary\<close>

lemma summary_quiet:
  assumes "new_tickets_count data = 0" "blocked_tasks_count data = 0"
    "open_prs_count data = 0" "merged_prs_count data = 0" "urgent_commits_count data = 0"
  shows "generate_simple_summary data team_name
           = asc ''Good morning, '' @ team_name
             @ asc ''! No significant updates or issues to report today. Everything appears to be running smoothly.''"
  using assms by (simp add: generate_simple_summary_def summary_parts_def)

lemma summary_three:
  assumes "new_tickets_count data = 3" "blocked_tasks_count data = 0"
    "open_prs_count data = 0" "merged_prs_count data = 0" "urgent_commits_count data = 0"
  shows "generate_simple_summary data team_name
           = asc ''Here's today's update for '' @ team_name
             @ asc '':  3 new Jira tickets were created.''"
  using assms
  by (simp add: generate_simple_summary_def summary_parts_def digits.simps asc_def)

text \<open>
  C8: with every count zero, \<open>generate_simple_summary\<close> returns a string that begins with
  "Good morning, {team_name}!" and contains "No significant updates". With three new
  tickets and every other count zero, the string contains "3 new Jira tickets were
  created" and ends with a period; it is the opening, the team name and that one sentence,
  with no comma-joined fragment after it.
\<close>

theorem C8_simple_summary:
  "(new_tickets_count data = 0 \<and> blocked_tasks_count data = 0 \<and> open_prs_count data = 0
    \<and> merged_prs_count data = 0 \<and> urgent_commits_count data = 0
    \<longrightarrow> prefix (asc ''Good morning, '' @ team_name @ asc ''!'')
          (generate_simple_summary data team_name)
        \<and> sublist (asc ''No significant updates'') (generate_simple_summary data team_name))
   \<and> (new_tickets_count data = 3 \<and> blocked_tasks_count data = 0 \<and> open_prs_count data = 0
      \<and> merged_prs_count data = 0 \<and> urgent_commits_count data = 0
      \<longrightarrow> sublist (asc ''3 new Jira tickets were created'')
            (generate_simple_summary data team_name)
          \<and> suffix (asc ''.'') (generate_simple_summary data team_name)
          \<and> generate_simple_summary data team_name
            = asc ''Here's today's update for '' @ team_name
              @ asc '':  3 new Jira tickets were created.'')"
proof -
  have quiet: "prefix (asc ''Good morning, '' @ team_name @ asc ''!'')
                 (generate_simple_summary data team_name)
               \<and> sublist (asc ''No significant updates'')
                   (generate_simple_summary data team_name)"
    if "new_tickets_count data = 0" "blocked_tasks_count data = 0" "open_prs_count data = 0"
      "merged_prs_count data = 0" "urgent_commits_count data = 0"
  proof
    have "generate_simple_summary data team_name
            = (asc ''Good morning, '' @ team_name @ asc ''!'')
              @ asc '' No significant updates or issues to report today. Everything appears to be running smoothly.''"
      using that by (simp add: summary_quiet asc_def)
    then show "prefix (asc ''Good morning, '' @ team_name @ asc ''!'')
                 (generate_simple_summary data team_name)"
      by (simp only: prefixI)
    have "generate_simple_summary data team_name
            = (asc ''Good morning, '' @ team_name @ asc ''! '')
              @ asc ''No significant updates''
              @ asc '' or issues to report today. Everything appears to be running smoothly.''"
      using that by (simp add: summary_quiet asc_def)
    then show "sublist (asc ''No significant updates'')
                 (generate_simple_summary data team_name)"
      by (simp only: sublist_appendI)
  qed
  have three: "sublist (asc ''3 new Jira tickets were created'')
                 (generate_simple_summary data team_name)
               \<and> suffix (asc ''.'') (generate_simple_summary data team_name)
               \<and> generate_simple_summary data team_name
                 = asc ''Here's today's update for '' @ team_name
                   @ asc '':  3 new Jira tickets were created.''"
    if "new_tickets_count data = 3" "blocked_tasks_count data = 0" "open_prs_count data = 0"
      "merged_prs_count data = 0" "urgent_commits_count data = 0"
  proof (intro conjI)
    have "generate_simple_summary data team_name
            = (asc ''Here's today's update for '' @ team_name @ asc '':  '')
              @ asc ''3 new Jira tickets were created'' @ asc ''.''"
      using that by (simp add: summary_three asc_def)
    then show "sublist (asc ''3 new Jira tickets were created'')
                 (generate_simple_summary data team_name)"
      by (simp only: sublist_appendI)
    have "generate_simple_summary data team_name
            = (asc ''Here's today's update for '' @ team_name
               @ asc '':  3 new Jira tickets were created'') @ asc ''.''"
      using that by (simp add: summary_three asc_def)
    then show "suffix (asc ''.'') (generate_simple_summary data team_name)"
      by (simp only: suffixI)
    show "generate_simple_summary data team_name
            = asc ''Here's today's update for '' @ team_name
              @ asc '':  3 new Jira tickets were created.''"
      using that by (rule summary_three)
  qed
  show ?thesis using quiet three by blast
qed

theorem C8_simple_summary_witness:
  "prefix (asc ''Good morning, '' @ asc ''Core'' @ asc ''!'')
     (generate_simple_summary no_activity (asc ''Core''))
   \<and> sublist (asc ''No significant updates'') (generate_simple_summary no_activity (asc ''Core''))
   \<and> sublist (asc ''3 new Jira tickets were created'')
       (generate_simple_summary three_tickets (asc ''Core''))
   \<and> suffix (asc ''.'') (generate_simple_summary three_tickets (asc ''Core''))
   \<and> generate_simple_summary three_tickets (asc ''Core'')
     = asc ''Here's today's update for '' @ asc ''Core''
       @ asc '':  3 new Jira tickets were created.''"
proof -
  have zero: "new_tickets_count no_activity = 0 \<and> blocked_tasks_count no_activity = 0
      \<and> open_prs_count no_activity = 0 \<and> merged_prs_count no_activity = 0
      \<and> urgent_commits_count no_activity = 0"
    by (simp add: no_activity_def new_tickets_count_def blocked_tasks_count_def
          open_prs_count_def merged_prs_count_def urgent_commits_count_def dict_get_def
          empty_jira_def)
  have three: "new_tickets_count three_tickets = 3 \<and> blocked_tasks_count three_tickets = 0
      \<and> open_prs_count three_tickets = 0 \<and> merged_prs_count three_tickets = 0
      \<and> urgent_commits_count three_tickets = 0"
    by (simp add: three_tickets_def new_tickets_count_def blocked_tasks_count_def
          open_prs_count_def merged_prs_count_def urgent_commits_count_def dict_get_def
          empty_github_def)
  show ?thesis
    using C8_simple_summary [of no_activity "asc ''Core''"]
      C8_simple_summary [of three_tickets "asc ''Core''"] zero three
    by blast
qed

section \<open>The analysis prompt\<close>

lemma prompts_eq:
  "build_pr_analysis_prompt d
     = prompt_head d @ concat (map file_entry (dict_get (dd_files d) []))"
  "analyze_pr_prompt d = prompt_head d @ concat (map file_entry (dict_get (dd_files d) []))"
  by (simp_all add: build_pr_analysis_prompt_def analyze_pr_prompt_def fold_app)

text \<open>
  C4, as the code has it: in the prompt of \<open>analyze_pr\<close> and in the prompt of
  \<open>_build_pr_analysis_prompt\<close>, the entry of every changed file is a piece of the prompt;
  a patch of 3000 characters or more is not included, the literal
  "[Diff too large to include]" stands in its place; a non-empty patch of fewer than 3000
  characters is included verbatim in a fenced block.
\<close>

theorem C4_patch_cutoff:
  assumes "f \<in> set (dict_get (dd_files d) [])"
  shows "sublist (file_entry f) (build_pr_analysis_prompt d)
       \<and> sublist (file_entry f) (analyze_pr_prompt d)
       \<and> (\<forall>p. cf_patch f = Some p \<and> 3000 \<le> length p \<longrightarrow>
              file_entry f = file_lines f @ asc ''\<newline>[Diff too large to include]\<newline>'')
       \<and> (\<forall>p. cf_patch f = Some p \<and> p \<noteq> [] \<and> length p < 3000 \<longrightarrow>
              file_entry f
              = file_lines f @ asc ''\<newline>```\<newline>'' @ p @ asc ''\<newline>```\<newline>'')"
proof -
  have "sublist (file_entry f) (concat (map file_entry (dict_get (dd_files d) [])))"
    using assms by (rule sublist_concat_map)
  then have "sublist (file_entry f)
               (prompt_head d @ concat (map file_entry (dict_get (dd_files d) [])))"
    by (rule sublist_order.order_trans) (rule sublist_append_leftI)
  then show ?thesis
    by (simp add: prompts_eq file_entry_def patch_lines_def)
qed

theorem C4_patch_cutoff_witness:
  "sublist (file_entry big_file) (build_pr_analysis_prompt two_files)
   \<and> file_entry big_file
     = file_lines big_file @ asc ''\<newline>[Diff too large to include]\<newline>''
   \<and> sublist (file_entry small_file) (analyze_pr_prompt two_files)
   \<and> file_entry small_file
     = file_lines small_file @ asc ''\<newline>```\<newline>+x\<newline>```\<newline>''"
proof -
  have big: "big_file \<in> set (dict_get (dd_files two_files) [])"
    and small: "small_file \<in> set (dict_get (dd_files two_files) [])"
    by (simp_all add: two_files_def dict_get_def)
  have big_patch: "cf_patch big_file = Some (replicate 3000 43)
                   \<and> 3000 \<le> length (replicate 3000 (43::nat))"
    by (simp add: big_file_def)
  have small_patch: "cf_patch small_file = Some (asc ''+x'') \<and> asc ''+x'' \<noteq> []
                     \<and> length (asc ''+x'') < 3000"
    by (simp add: small_file_def asc_def)
  show ?thesis
    using C4_patch_cutoff [OF big] C4_patch_cutoff [OF small] big_patch small_patch
    by (auto simp: asc_def)
qed

text \<open>
  A patch of exactly 3000 characters is not longer than 3000 characters, and it is
  replaced by the placeholder: neither prompt holds it.
\<close>

theorem C4_patch_cutoff_counterexample:
  "cf_patch big_file = Some (replicate 3000 43)
   \<and> length (replicate 3000 (43::nat)) \<le> 3000
   \<and> file_entry big_file
     = asc ''\<newline>File: retry.py\<newline>Status: modified\<newline>Changes: +120 -0 lines\<newline>[Diff too large to include]\<newline>''
   \<and> \<not> sublist (replicate 3000 43) (build_pr_analysis_prompt two_files)
   \<and> \<not> sublist (replicate 3000 43) (analyze_pr_prompt two_files)"
proof -
  have entry: "file_entry big_file
       = asc ''\<newline>File: retry.py\<newline>Status: modified\<newline>Changes: +120 -0 lines\<newline>[Diff too large to include]\<newline>''"
    by (simp add: file_entry_def file_lines_def patch_lines_def big_file_def fmt_str_def
          fmt_int_def str_int_def digits.simps asc_def)
  have short: "length (build_pr_analysis_prompt two_files) < 3000"
    by (simp add: prompts_eq two_files_def dict_get_def prompt_head_def fmt_str_def
          file_entry_def file_lines_def patch_lines_def small_file_def big_file_def
          fmt_int_def str_int_def digits.simps asc_def)
  have "\<not> sublist (replicate 3000 43) (build_pr_analysis_prompt two_files)"
    using short
      sublist_length_le [of "replicate 3000 43" "build_pr_analysis_prompt two_files"]
    by auto
  moreover have "analyze_pr_prompt two_files = build_pr_analysis_prompt two_files"
    by (simp add: prompts_eq)
  ultimately show ?thesis using entry by (simp add: big_file_def)
qed

section \<open>The sections of the card only append\<close>

lemma add_new_tickets_append: "add_new_tickets body ts = body @ add_new_tickets [] ts"
  by (simp add: add_new_tickets_def Let_def fold_snoc)

lemma add_blocked_tasks_append: "add_blocked_tasks body ts = body @ add_blocked_tasks [] ts"
  by (simp add: add_blocked_tasks_def Let_def fold_snoc)

lemma add_completed_append: "add_completed body cs = body @ add_completed [] cs"
  by (simp add: add_completed_def Let_def fold_snoc)

lemma add_jira_section_eq:
  "add_jira_section body j =
     body @ [TextBlock ([0x1F9E9] @ asc '' Jira Updates'')
               (Some ''Bolder'') (Some ''Medium'') None None (Some ''Medium'')]
     @ add_new_tickets [] (dict_get (new_tickets j) [])
     @ add_blocked_tasks [] (dict_get (blocked_tasks j) [])
     @ add_completed [] (dict_get (status_changes j) [])"
  unfolding add_jira_section_def Let_def
  by (subst add_completed_append, subst add_blocked_tasks_append, subst add_new_tickets_append)
     simp

lemma add_open_prs_append: "add_open_prs body ps = body @ add_open_prs [] ps"
  by (simp add: add_open_prs_def Let_def fold_snoc)

lemma add_recent_merges_append: "add_recent_merges body ms = body @ add_recent_merges [] ms"
  by (simp add: add_recent_merges_def Let_def fold_snoc)

lemma add_urgent_commits_append: "add_urgent_commits body cs = body @ add_urgent_commits [] cs"
  by (simp add: add_urgent_commits_def Let_def fold_snoc)

lemma add_github_section_eq:
  "add_github_section body g =
     body @ [TextBlock ([0x1F6E0, 0xFE0F] @ asc '' GitHub Activity'')
               (Some ''Bolder'') (Some ''Medium'') None None (Some ''Medium'')]
     @ add_open_prs [] (dict_get (open_prs g) [])
     @ add_recent_merges [] (dict_get (recent_merges g) [])
     @ add_urgent_commits [] (dict_get (urgent_commits g) [])"
  unfolding add_github_section_def Let_def
  by (subst add_urgent_commits_append, subst add_recent_merges_append, subst add_open_prs_append)
     simp

lemma add_jira_section_append: "add_jira_section body j = body @ add_jira_section [] j"
  by (simp add: add_jira_section_eq)

lemma add_github_section_append: "add_github_section body g = body @ add_github_section [] g"
  by (simp add: add_github_section_eq)

lemma add_pr_analyses_section_append:
  "add_pr_analyses_section body as = body @ add_pr_analyses_section [] as"
  by (simp add: add_pr_analyses_section_def Let_def fold_app)

lemma add_database_section_append:
  "add_database_section body db = body @ add_database_section [] db"
  by (simp add: add_database_section_def Let_def)


text \<open>A dictionary with a truthy value has a key, so each test reduces to \<open>any\<close>.\<close>

lemma present_simps:
  "(jira_nonempty j \<and> jira_any j) = jira_any j"
  "(\<not> jira_nonempty j \<or> \<not> jira_any j) = (\<not> jira_any j)"
  "(github_nonempty g \<and> github_any g) = github_any g"
  "(\<not> github_nonempty g \<or> \<not> github_any g) = (\<not> github_any g)"
  "(db_nonempty db \<and> db_any db) = db_any db"
  by (auto simp: jira_nonempty_def jira_any_def github_nonempty_def github_any_def
        db_nonempty_def db_any_def truthy_def split: option.splits)

lemma digest_body_eq:
  "digest_body team_name data ai_summary =
     [TextBlock ([0x1F305] @ asc '' Good morning, '' @ team_name @ asc ''!'')
        (Some ''Bolder'') (Some ''Large'') (Some True) None None,
      TextBlock (asc ''Here's your daily project digest:'') None None (Some True) None None]
     @ (if ai_summary \<noteq> []
        then [TextBlock ([0x1F4A1] @ asc '' AI Summary'')
                (Some ''Bolder'') (Some ''Medium'') None None (Some ''Medium''),
              TextBlock ai_summary None None (Some True) None None]
        else [])
     @ (if jira_any (dict_get (jira data) empty_jira)
        then add_jira_section [] (dict_get (jira data) empty_jira) else [])
     @ (if github_any (dict_get (github data) empty_github)
        then add_github_section [] (dict_get (github data) empty_github)
             @ (if truthy (pr_analyses (dict_get (github data) empty_github))
                then add_pr_analyses_section []
                       (dict_get (pr_analyses (dict_get (github data) empty_github)) [])
                else [])
        else [])
     @ (if db_any (dict_get (database data) empty_db)
        then add_database_section [] (dict_get (database data) empty_db) else [])
     @ (if \<not> jira_any (dict_get (jira data) empty_jira)
           \<and> \<not> github_any (dict_get (github data) empty_github)
        then [quiet_day_block] else [])"
  unfolding digest_body_def Let_def present_simps
  by (simp add: add_jira_section_append [of "b # bs" for b bs]
        add_github_section_append [of "b # bs" for b bs]
        add_pr_analyses_section_append [of "b # bs" for b bs]
        add_database_section_append [of "b # bs" for b bs])



lemma card_body_digest:
  "card_body (format_daily_digest team_name data ai_summary)
     = digest_body team_name data ai_summary"
  by (simp add: card_body_def format_daily_digest_def)

section \<open>The quiet-day block\<close>

lemma quiet_eq:
  "(quiet_day_block = TextBlock t w s wr sub sp)
   \<longleftrightarrow> (t = asc ''No updates found for today. It's a quiet day! '' @ [0x1F60A] \<and> w = None
        \<and> s = None \<and> wr = Some True \<and> sub = None \<and> sp = Some ''Medium'')"
  "(TextBlock t w s wr sub sp = quiet_day_block)
   \<longleftrightarrow> (t = asc ''No updates found for today. It's a quiet day! '' @ [0x1F60A] \<and> w = None
        \<and> s = None \<and> wr = Some True \<and> sub = None \<and> sp = Some ''Medium'')"
  "quiet_day_block \<noteq> ActionSet acts"
  by (auto simp: quiet_day_block_def)

lemma not_quiet_new_tickets: "quiet_day_block \<notin> set (add_new_tickets [] ts)"
  by (auto simp: add_new_tickets_def Let_def fold_snoc quiet_eq ticket_line_def
        overflow_line_def)

lemma not_quiet_blocked: "quiet_day_block \<notin> set (add_blocked_tasks [] ts)"
  by (auto simp: add_blocked_tasks_def Let_def fold_snoc quiet_eq blocked_line_def
        overflow_line_def asc_def)

lemma not_quiet_completed: "quiet_day_block \<notin> set (add_completed [] cs)"
  by (auto simp: add_completed_def Let_def fold_snoc quiet_eq completed_line_def
        overflow_line_def asc_def)

lemma not_quiet_jira: "quiet_day_block \<notin> set (add_jira_section [] j)"
  by (simp add: add_jira_section_eq quiet_eq not_quiet_new_tickets not_quiet_blocked
        not_quiet_completed)

lemma not_quiet_open_prs: "quiet_day_block \<notin> set (add_open_prs [] ps)"
  by (auto simp: add_open_prs_def Let_def fold_snoc quiet_eq open_pr_line_def
        overflow_line_def)

lemma not_quiet_merges: "quiet_day_block \<notin> set (add_recent_merges [] ms)"
  by (auto simp: add_recent_merges_def Let_def fold_snoc quiet_eq merge_line_def
        merges_header_def overflow_line_def asc_def)

lemma not_quiet_commits: "quiet_day_block \<notin> set (add_urgent_commits [] cs)"
  by (auto simp: add_urgent_commits_def Let_def fold_snoc quiet_eq commit_line_def
        overflow_line_def asc_def)

lemma not_quiet_github: "quiet_day_block \<notin> set (add_github_section [] g)"
  by (simp add: add_github_section_eq quiet_eq not_quiet_open_prs not_quiet_merges
        not_quiet_commits)

lemma not_quiet_analysis: "quiet_day_block \<notin> set (analysis_blocks a)"
  by (auto simp: analysis_blocks_def Let_def analysis_text_block_def quiet_eq)

lemma not_quiet_analyses: "quiet_day_block \<notin> set (add_pr_analyses_section [] as)"
  by (auto simp: add_pr_analyses_section_def Let_def fold_app quiet_eq not_quiet_analysis)

lemma not_quiet_database: "quiet_day_block \<notin> set (add_database_section [] db)"
  by (auto simp: add_database_section_def Let_def quiet_eq)

lemma quiet_iff:
  "quiet_day_block \<in> set (digest_body team_name data ai_summary)
   \<longleftrightarrow> \<not> jira_any (dict_get (jira data) empty_jira)
       \<and> \<not> github_any (dict_get (github data) empty_github)"
  by (simp add: digest_body_eq quiet_eq not_quiet_jira not_quiet_github not_quiet_analyses
        not_quiet_database)

lemma jira_any_iff:
  "jira_any (dict_get (jira data) empty_jira)
   \<longleftrightarrow> \<not> (case jira data of
            None \<Rightarrow> True
          | Some j \<Rightarrow> dict_get (new_tickets j) [] = [] \<and> dict_get (blocked_tasks j) [] = []
                      \<and> dict_get (status_changes j) [] = [])"
  by (auto simp: jira_any_def truthy_def dict_get_def empty_jira_def split: option.splits)

lemma github_any_iff:
  "github_any (dict_get (github data) empty_github)
   \<longleftrightarrow> \<not> (case github data of
            None \<Rightarrow> True
          | Some g \<Rightarrow> dict_get (open_prs g) [] = [] \<and> dict_get (recent_merges g) [] = []
                      \<and> dict_get (urgent_commits g) [] = []
                      \<and> dict_get (pr_analyses g) [] = [])"
  by (auto simp: github_any_def truthy_def dict_get_def empty_github_def
        split: option.splits)


text \<open>
  C6: \<open>format_daily_digest\<close> appends the quiet-day block, the text block that reads
  "No updates found for today. It's a quiet day!" followed by a smiling face, with medium
  spacing, if and only if the tracker data and the source-hosting data are each absent or
  all-empty; the database data has no part in it. With both empty and a non-empty \<open>activity_stats\<close>, the payload holds the
  header of the Weekly Database Insights section and ends with the quiet-day block.
\<close>

theorem C6_quiet_day:
  "(TextBlock (asc ''No updates found for today. It's a quiet day! '' @ [0x1F60A])
          None None (Some True) None (Some ''Medium'')
        \<in> set (card_body (format_daily_digest team_name data ai_summary))
    \<longleftrightarrow> (case jira data of
           None \<Rightarrow> True
         | Some j \<Rightarrow> dict_get (new_tickets j) [] = [] \<and> dict_get (blocked_tasks j) [] = []
                     \<and> dict_get (status_changes j) [] = [])
        \<and> (case github data of
             None \<Rightarrow> True
           | Some g \<Rightarrow> dict_get (open_prs g) [] = [] \<and> dict_get (recent_merges g) [] = []
                       \<and> dict_get (urgent_commits g) [] = []
                       \<and> dict_get (pr_analyses g) [] = []))
   \<and> (TextBlock (asc ''No updates found for today. It's a quiet day! '' @ [0x1F60A])
          None None (Some True) None (Some ''Medium'')
         \<in> set (card_body (format_daily_digest team_name (data\<lparr>database := db\<rparr>) ai_summary))
       \<longleftrightarrow> TextBlock (asc ''No updates found for today. It's a quiet day! '' @ [0x1F60A])
          None None (Some True) None (Some ''Medium'')
             \<in> set (card_body (format_daily_digest team_name data ai_summary)))
   \<and> ((case jira data of
          None \<Rightarrow> True
        | Some j \<Rightarrow> dict_get (new_tickets j) [] = [] \<and> dict_get (blocked_tasks j) [] = []
                    \<and> dict_get (status_changes j) [] = [])
        \<and> (case github data of
              None \<Rightarrow> True
            | Some g \<Rightarrow> dict_get (open_prs g) [] = [] \<and> dict_get (recent_merges g) [] = []
                        \<and> dict_get (urgent_commits g) [] = []
                        \<and> dict_get (pr_analyses g) [] = [])
        \<and> database data = Some stats_db \<and> dict_get (activity_stats stats_db) [] \<noteq> []
      \<longrightarrow> TextBlock ([0x1F4CA] @ asc '' Weekly Database Insights'')
            (Some ''Bolder'') (Some ''Medium'') None None (Some ''Medium'')
            \<in> set (card_body (format_daily_digest team_name data ai_summary))
          \<and> last (card_body (format_daily_digest team_name data ai_summary))
            = TextBlock (asc ''No updates found for today. It's a quiet day! '' @ [0x1F60A])
          None None (Some True) None (Some ''Medium''))"
proof -
  have iff: "\<And>d. quiet_day_block \<in> set (card_body (format_daily_digest team_name d ai_summary))
    \<longleftrightarrow> \<not> jira_any (dict_get (jira d) empty_jira)
        \<and> \<not> github_any (dict_get (github d) empty_github)"
    by (simp add: card_body_digest quiet_iff)
  have first: "quiet_day_block \<in> set (card_body (format_daily_digest team_name data ai_summary))
    \<longleftrightarrow> (case jira data of
           None \<Rightarrow> True
         | Some j \<Rightarrow> dict_get (new_tickets j) [] = [] \<and> dict_get (blocked_tasks j) [] = []
                     \<and> dict_get (status_changes j) [] = [])
        \<and> (case github data of
             None \<Rightarrow> True
           | Some g \<Rightarrow> dict_get (open_prs g) [] = [] \<and> dict_get (recent_merges g) [] = []
                       \<and> dict_get (urgent_commits g) [] = []
                       \<and> dict_get (pr_analyses g) [] = [])"
    unfolding iff jira_any_iff github_any_iff by simp
  have second: "quiet_day_block
         \<in> set (card_body (format_daily_digest team_name (data\<lparr>database := db\<rparr>) ai_summary))
       \<longleftrightarrow> quiet_day_block
             \<in> set (card_body (format_daily_digest team_name data ai_summary))"
    unfolding iff by simp
  have third: "TextBlock ([0x1F4CA] @ asc '' Weekly Database Insights'')
            (Some ''Bolder'') (Some ''Medium'') None None (Some ''Medium'')
            \<in> set (card_body (format_daily_digest team_name data ai_summary))
          \<and> last (card_body (format_daily_digest team_name data ai_summary))
            = quiet_day_block"
    if "\<not> jira_any (dict_get (jira data) empty_jira)"
      and "\<not> github_any (dict_get (github data) empty_github)"
      and "database data = Some stats_db" and "dict_get (activity_stats stats_db) [] \<noteq> []"
    using that
    by (auto simp: card_body_digest digest_body_eq add_database_section_def Let_def
          db_any_def truthy_def dict_get_def split: option.splits)
  show ?thesis
    using first second third unfolding jira_any_iff github_any_iff quiet_day_block_def
    by blast
qed

theorem C6_quiet_day_witness:
  "TextBlock (asc ''No updates found for today. It's a quiet day! '' @ [0x1F60A])
          None None (Some True) None (Some ''Medium'')
        \<in> set (card_body (format_daily_digest (asc ''Core'') stats_only []))
   \<and> TextBlock ([0x1F4CA] @ asc '' Weekly Database Insights'')
        (Some ''Bolder'') (Some ''Medium'') None None (Some ''Medium'')
       \<in> set (card_body (format_daily_digest (asc ''Core'') stats_only []))
   \<and> last (card_body (format_daily_digest (asc ''Core'') stats_only [])) = TextBlock (asc ''No updates found for today. It's a quiet day! '' @ [0x1F60A])
          None None (Some True) None (Some ''Medium'')"
proof -
  have d: "database stats_only
             = Some \<lparr>activity_stats = Some [(''weekly_prs'', 4)], team_metrics = None\<rparr>"
    "dict_get (activity_stats \<lparr>activity_stats = Some [(''weekly_prs'', 4)], team_metrics = None\<rparr>) []
       \<noteq> []"
    by (simp_all add: stats_only_def dict_get_def)
  have e: "(case jira stats_only of
           None \<Rightarrow> True
         | Some j \<Rightarrow> dict_get (new_tickets j) [] = [] \<and> dict_get (blocked_tasks j) [] = []
                     \<and> dict_get (status_changes j) [] = [])
        \<and> (case github stats_only of
             None \<Rightarrow> True
           | Some g \<Rightarrow> dict_get (open_prs g) [] = [] \<and> dict_get (recent_merges g) [] = []
                       \<and> dict_get (urgent_commits g) [] = []
                       \<and> dict_get (pr_analyses g) [] = [])"
    by (simp add: stats_only_def dict_get_def)
  show ?thesis
    using C6_quiet_day [of "asc ''Core''" stats_only "[]" None
        "\<lparr>activity_stats = Some [(''weekly_prs'', 4)], team_metrics = None\<rparr>"] d e
    by blast
qed

section \<open>The PR-analyses section\<close>

lemma sublist_analyses:
  assumes "a \<in> set (take 3 as)"
  shows "sublist (analysis_blocks a) (add_pr_analyses_section [] as)"
proof -
  have "as \<noteq> []" using assms by auto
  then have eq: "add_pr_analyses_section [] as
      = [TextBlock ([0x1F50D] @ asc '' Pull Request Analyses'')
           (Some ''Bolder'') (Some ''Medium'') None None (Some ''Medium'')]
        @ concat (map analysis_blocks (take 3 as))
        @ (if length as > 3
           then [TextBlock (asc ''...and '' @ digits (length as - 3) @ asc '' more PR analyses'')
                   None None (Some True) (Some True) (Some ''Small'')]
           else [])"
    by (simp add: add_pr_analyses_section_def Let_def fold_app)
  have "sublist (concat (map analysis_blocks (take 3 as))) (add_pr_analyses_section [] as)"
    by (simp only: eq sublist_appendI)
  moreover have "sublist (analysis_blocks a) (concat (map analysis_blocks (take 3 as)))"
    using assms by (rule sublist_concat_map)
  ultimately show ?thesis
    by (rule sublist_order.order_trans [rotated])
qed

text \<open>
  C7: in the PR-analyses section of \<open>format_daily_digest\<close>, every rendered analysis (one
  of the first three) has its blocks in the payload, and its fourth block, the analysis
  text, is the first 500 characters followed by "..." when the text is longer than 500
  characters, and the full text with no ellipsis when it has at most 500 characters.
\<close>

theorem C7_analysis_truncation:
  assumes "github data = Some g" and "pr_analyses g = Some as" and "a \<in> set (take 3 as)"
  shows "let analysis_text = dict_get (an_analysis a) (asc ''No analysis available'');
             rendered = analysis_blocks a ! 3
         in sublist (analysis_blocks a)
              (card_body (format_daily_digest team_name data ai_summary))
            \<and> (500 < length analysis_text \<longrightarrow>
                 rendered = TextBlock (take 500 analysis_text @ asc ''...'')
                              None None (Some True) None None)
            \<and> (length analysis_text \<le> 500 \<longrightarrow>
                 rendered = TextBlock analysis_text None None (Some True) None None)"
proof -
  have "as \<noteq> []" using assms(3) by auto
  then have present: "github_any g" "truthy (pr_analyses g)"
    using assms(2) by (simp_all add: github_any_def truthy_def)
  have eq: "digest_body team_name data ai_summary
      = ([TextBlock ([0x1F305] @ asc '' Good morning, '' @ team_name @ asc ''!'')
            (Some ''Bolder'') (Some ''Large'') (Some True) None None,
          TextBlock (asc ''Here's your daily project digest:'') None None (Some True) None None]
         @ (if ai_summary \<noteq> []
            then [TextBlock ([0x1F4A1] @ asc '' AI Summary'')
                    (Some ''Bolder'') (Some ''Medium'') None None (Some ''Medium''),
                  TextBlock ai_summary None None (Some True) None None]
            else [])
         @ (if jira_any (dict_get (jira data) empty_jira)
            then add_jira_section [] (dict_get (jira data) empty_jira) else [])
         @ add_github_section [] g)
        @ add_pr_analyses_section [] as
        @ (if db_any (dict_get (database data) empty_db)
           then add_database_section [] (dict_get (database data) empty_db) else [])"
    using assms(1,2) present by (simp add: digest_body_eq dict_get_def)
  have "sublist (add_pr_analyses_section [] as) (digest_body team_name data ai_summary)"
    by (subst eq) (rule sublist_appendI)
  with sublist_analyses [OF assms(3)]
  have "sublist (analysis_blocks a) (digest_body team_name data ai_summary)"
    by (rule sublist_order.order_trans)
  then have "sublist (analysis_blocks a)
               (card_body (format_daily_digest team_name data ai_summary))"
    by (simp only: card_body_digest)
  moreover have "analysis_blocks a ! 3
                   = analysis_text_block (dict_get (an_analysis a) (asc ''No analysis available''))"
    by (simp add: analysis_blocks_def Let_def)
  ultimately show ?thesis
    by (simp add: Let_def analysis_text_block_def)
qed

theorem C7_analysis_truncation_witness:
  "analysis_blocks (sample_analysis (replicate 501 97)) ! 3
     = TextBlock (replicate 500 97 @ asc ''...'') None None (Some True) None None
   \<and> analysis_blocks (sample_analysis (replicate 500 97)) ! 3
     = TextBlock (replicate 500 97) None None (Some True) None None
   \<and> sublist (analysis_blocks (sample_analysis (replicate 501 97)))
       (card_body (format_daily_digest (asc ''Core'')
          (analyses_only [sample_analysis (replicate 501 97), sample_analysis (replicate 500 97)])
          []))"
proof -
  let ?as = "[sample_analysis (replicate 501 97), sample_analysis (replicate 500 97)]"
  have g: "github (analyses_only ?as)
             = Some \<lparr>open_prs = Some [], recent_merges = Some [], urgent_commits = Some [],
                     pr_analyses = Some ?as\<rparr>"
    by (simp add: analyses_only_def)
  have p: "pr_analyses \<lparr>open_prs = Some [], recent_merges = Some [], urgent_commits = Some [],
                     pr_analyses = Some ?as\<rparr> = Some ?as"
    by simp
  have m1: "sample_analysis (replicate 501 97) \<in> set (take 3 ?as)"
    and m2: "sample_analysis (replicate 500 97) \<in> set (take 3 ?as)"
    by simp_all
  have t: "dict_get (an_analysis (sample_analysis x)) (asc ''No analysis available'') = x" for x
    by (simp add: sample_analysis_def dict_get_def)
  show ?thesis
    using C7_analysis_truncation [OF g p m1, of "asc ''Core''" "[]"]
      C7_analysis_truncation [OF g p m2, of "asc ''Core''" "[]"]
    by (simp add: Let_def t)
qed


section \<open>The merged-PRs part\<close>

lemma is_merges_header_simps:
  "is_merges_header (TextBlock t w s wr sub sp) \<longleftrightarrow>
     w = None \<and> sp = Some ''Medium'' \<and> prefix (0x2705 # asc '' '') t
     \<and> suffix (asc '' pull requests were merged yesterday:'') t"
  "\<not> is_merges_header (ActionSet acts)"
  by (simp_all add: is_merges_header_def)

lemma is_merged_overflow_simps:
  "is_merged_overflow (TextBlock t w s wr sub sp) \<longleftrightarrow>
     sub = Some True \<and> prefix (asc ''...and '') t \<and> suffix (asc '' more merged PRs'') t"
  "\<not> is_merged_overflow (ActionSet acts)"
  by (simp_all add: is_merged_overflow_def)

lemmas reads = is_merges_header_simps is_merged_overflow_simps suffix_to_prefix asc_def

lemma no_merges_new_tickets:
  "\<forall>b\<in>set (add_new_tickets [] ts).
     \<not> is_merges_header b \<and> \<not> is_merged_overflow b"
  by (auto simp: add_new_tickets_def Let_def fold_snoc ticket_line_def overflow_line_def reads)

lemma no_merges_blocked:
  "\<forall>b\<in>set (add_blocked_tasks [] ts).
     \<not> is_merges_header b \<and> \<not> is_merged_overflow b"
  by (auto simp: add_blocked_tasks_def Let_def fold_snoc blocked_line_def overflow_line_def reads)

lemma no_merges_completed:
  "\<forall>b\<in>set (add_completed [] cs).
     \<not> is_merges_header b \<and> \<not> is_merged_overflow b"
  by (auto simp: add_completed_def Let_def fold_snoc completed_line_def overflow_line_def reads)

lemma no_merges_jira:
  "\<forall>b\<in>set (add_jira_section [] j).
     \<not> is_merges_header b \<and> \<not> is_merged_overflow b"
  by (auto simp: add_jira_section_eq ball_Un no_merges_new_tickets no_merges_blocked
        no_merges_completed reads)

lemma no_merges_open_prs:
  "\<forall>b\<in>set (add_open_prs [] ps).
     \<not> is_merges_header b \<and> \<not> is_merged_overflow b"
  by (auto simp: add_open_prs_def Let_def fold_snoc open_pr_line_def overflow_line_def reads)

lemma no_merges_commits:
  "\<forall>b\<in>set (add_urgent_commits [] cs).
     \<not> is_merges_header b \<and> \<not> is_merged_overflow b"
  by (auto simp: add_urgent_commits_def Let_def fold_snoc commit_line_def overflow_line_def reads)

lemma no_merges_analysis:
  "\<forall>b\<in>set (analysis_blocks a).
     \<not> is_merges_header b \<and> \<not> is_merged_overflow b"
  by (auto simp: analysis_blocks_def Let_def analysis_text_block_def reads)

lemma no_merges_analyses:
  "\<forall>b\<in>set (add_pr_analyses_section [] as).
     \<not> is_merges_header b \<and> \<not> is_merged_overflow b"
  by (auto simp: add_pr_analyses_section_def Let_def fold_app no_merges_analysis reads)

lemma no_merges_database:
  "\<forall>b\<in>set (add_database_section [] db).
     \<not> is_merges_header b \<and> \<not> is_merged_overflow b"
  by (auto simp: add_database_section_def Let_def reads bullet_def)

lemma add_recent_merges_eq:
  "add_recent_merges [] ms =
     (if ms = [] then []
      else merges_header (length ms) # map merge_line (take 5 ms)
           @ (if 5 < length ms then [overflow_line (length ms - 5) ''merged PRs''] else []))"
  by (simp add: add_recent_merges_def Let_def fold_snoc)

lemma reads_merges_header:
  "is_merges_header (merges_header n)" "\<not> is_merged_overflow (merges_header n)"
  by (simp_all add: merges_header_def reads)

lemma reads_merge_line:
  "is_merge_line (merge_line m)" "\<not> is_merges_header (merge_line m)"
  "\<not> is_merged_overflow (merge_line m)"
  by (simp_all add: merge_line_def is_merge_line_def reads)

lemma reads_overflow:
  "is_merged_overflow (overflow_line k ''merged PRs'')"
  "\<not> is_merge_line (overflow_line k ''merged PRs'')"
  by (simp_all add: overflow_line_def is_merge_line_def reads)

lemma stop_commits:
  "takeWhile is_merge_line (add_urgent_commits [] cs @ zs)
   = (if cs = [] then takeWhile is_merge_line zs else [])"
  by (simp add: add_urgent_commits_def Let_def fold_snoc is_merge_line_def)

lemma stop_analyses: "takeWhile is_merge_line (add_pr_analyses_section [] as @ zs) = []"
  by (simp add: add_pr_analyses_section_def Let_def fold_app is_merge_line_def)

lemma stop_database:
  "takeWhile is_merge_line (add_database_section [] db @ zs)
   = (if dict_get (activity_stats db) [] = [] then takeWhile is_merge_line zs else [])"
  by (simp add: add_database_section_def Let_def is_merge_line_def)

lemma stop_parts:
  "takeWhile is_merge_line (add_urgent_commits [] cs) = []"
  "takeWhile is_merge_line (add_pr_analyses_section [] as) = []"
  "takeWhile is_merge_line (add_database_section [] db) = []"
  using stop_commits [of cs "[]"] stop_analyses [of as "[]"] stop_database [of db "[]"]
  by simp_all

lemma takeWhile_merge_lines:
  "takeWhile is_merge_line (map merge_line xs @ zs)
   = map merge_line xs @ takeWhile is_merge_line zs"
  by (induction xs) (simp_all add: reads_merge_line)

lemma after_merges_header_none:
  "\<forall>b\<in>set bs. \<not> is_merges_header b \<Longrightarrow> after_merges_header bs = []"
  by (induction bs) simp_all

lemma after_merges_header_first:
  "\<forall>b\<in>set pre. \<not> is_merges_header b \<Longrightarrow> is_merges_header h
   \<Longrightarrow> after_merges_header (pre @ h # rest) = rest"
  by (induction pre) simp_all

lemma digest_body_around_merges:
  assumes "github data = Some g"
  shows "\<exists>pre rest.
           digest_body team_name data ai_summary
             = pre @ (if github_any g then add_recent_merges [] (dict_get (recent_merges g) []) else [])
               @ rest
           \<and> (\<forall>b\<in>set pre. \<not> is_merges_header b \<and> \<not> is_merged_overflow b)
           \<and> (\<forall>b\<in>set rest. \<not> is_merges_header b \<and> \<not> is_merged_overflow b)
           \<and> takeWhile is_merge_line rest = []"
proof (cases "github_any g")
  case True
  define pre where "pre =
     [TextBlock ([0x1F305] @ asc '' Good morning, '' @ team_name @ asc ''!'')
        (Some ''Bolder'') (Some ''Large'') (Some True) None None,
      TextBlock (asc ''Here's your daily project digest:'') None None (Some True) None None]
     @ (if ai_summary \<noteq> []
        then [TextBlock ([0x1F4A1] @ asc '' AI Summary'')
                (Some ''Bolder'') (Some ''Medium'') None None (Some ''Medium''),
              TextBlock ai_summary None None (Some True) None None]
        else [])
     @ (if jira_any (dict_get (jira data) empty_jira)
        then add_jira_section [] (dict_get (jira data) empty_jira) else [])
     @ [TextBlock ([0x1F6E0, 0xFE0F] @ asc '' GitHub Activity'')
               (Some ''Bolder'') (Some ''Medium'') None None (Some ''Medium'')]
     @ add_open_prs [] (dict_get (open_prs g) [])"
  define rest where "rest =
     add_urgent_commits [] (dict_get (urgent_commits g) [])
     @ (if truthy (pr_analyses g)
        then add_pr_analyses_section [] (dict_get (pr_analyses g) []) else [])
     @ (if db_any (dict_get (database data) empty_db)
        then add_database_section [] (dict_get (database data) empty_db) else [])"
  have "digest_body team_name data ai_summary
          = pre @ add_recent_merges [] (dict_get (recent_merges g) []) @ rest"
    using assms True
    by (simp add: digest_body_eq add_github_section_eq pre_def rest_def dict_get_def)
  moreover have "\<forall>b\<in>set pre. \<not> is_merges_header b \<and> \<not> is_merged_overflow b"
    using no_merges_jira no_merges_open_prs by (auto simp: pre_def reads)
  moreover have "\<forall>b\<in>set rest. \<not> is_merges_header b \<and> \<not> is_merged_overflow b"
    using no_merges_commits no_merges_analyses no_merges_database by (auto simp: rest_def)
  moreover have "takeWhile is_merge_line rest = []"
    by (simp add: rest_def stop_commits stop_analyses stop_database stop_parts)
  ultimately show ?thesis using True by auto
next
  case False
  define pre where "pre =
     [TextBlock ([0x1F305] @ asc '' Good morning, '' @ team_name @ asc ''!'')
        (Some ''Bolder'') (Some ''Large'') (Some True) None None,
      TextBlock (asc ''Here's your daily project digest:'') None None (Some True) None None]
     @ (if ai_summary \<noteq> []
        then [TextBlock ([0x1F4A1] @ asc '' AI Summary'')
                (Some ''Bolder'') (Some ''Medium'') None None (Some ''Medium''),
              TextBlock ai_summary None None (Some True) None None]
        else [])
     @ (if jira_any (dict_get (jira data) empty_jira)
        then add_jira_section [] (dict_get (jira data) empty_jira) else [])"
  define rest where "rest =
     (if db_any (dict_get (database data) empty_db)
        then add_database_section [] (dict_get (database data) empty_db) else [])
     @ (if \<not> jira_any (dict_get (jira data) empty_jira) then [quiet_day_block] else [])"
  have "digest_body team_name data ai_summary = pre @ [] @ rest"
    using assms False
    by (simp add: digest_body_eq pre_def rest_def dict_get_def)
  moreover have "\<forall>b\<in>set pre. \<not> is_merges_header b \<and> \<not> is_merged_overflow b"
    using no_merges_jira by (auto simp: pre_def reads)
  moreover have "\<forall>b\<in>set rest. \<not> is_merges_header b \<and> \<not> is_merged_overflow b"
    using no_merges_database by (auto simp: rest_def quiet_day_block_def reads)
  moreover have "takeWhile is_merge_line rest = []"
    by (simp add: rest_def stop_database stop_parts quiet_day_block_def is_merge_line_def)
  ultimately show ?thesis using False by auto
qed

text \<open>
  C9: for every list of Merge Records supplied as the \<open>recent_merges\<close> list of the github
  data (of any length N, so in particular for N from 0 to 10), the merge lines rendered
  in the payload are the lines of the first five records, their number is min(N, 5), and
  the merged-PRs overflow line occurs in the payload if and only if N > 5.
\<close>

theorem C9_merge_lines:
  assumes "github data = Some g" and "recent_merges g = Some ms"
  shows "rendered_merge_lines (card_body (format_daily_digest team_name data ai_summary))
           = map merge_line (take 5 ms)
         \<and> length (rendered_merge_lines
                     (card_body (format_daily_digest team_name data ai_summary)))
           = min (length ms) 5
         \<and> ((\<exists>b\<in>set (card_body (format_daily_digest team_name data ai_summary)).
               is_merged_overflow b) \<longleftrightarrow> 5 < length ms)"
proof -
  have body: "card_body (format_daily_digest team_name data ai_summary)
                = digest_body team_name data ai_summary"
    by (simp add: card_body_def format_daily_digest_def)
  obtain pre rest where split:
    "digest_body team_name data ai_summary
       = pre @ (if github_any g then add_recent_merges [] (dict_get (recent_merges g) []) else [])
         @ rest"
    and pre: "\<forall>b\<in>set pre. \<not> is_merges_header b \<and> \<not> is_merged_overflow b"
    and rest: "\<forall>b\<in>set rest. \<not> is_merges_header b \<and> \<not> is_merged_overflow b"
    and stop: "takeWhile is_merge_line rest = []"
    using digest_body_around_merges [OF assms(1)] by blast
  show ?thesis
  proof (cases "ms = []")
    case True
    then have eq: "digest_body team_name data ai_summary = pre @ rest"
      using split assms(2) by (simp add: add_recent_merges_eq dict_get_def)
    have "after_merges_header (pre @ rest) = []"
      using pre rest by (intro after_merges_header_none) auto
    then show ?thesis
      using True pre rest by (auto simp: body eq rendered_merge_lines_def)
  next
    case False
    then have present: "github_any g"
      using assms(2) by (simp add: github_any_def truthy_def)
    let ?ovf = "if 5 < length ms then [overflow_line (length ms - 5) ''merged PRs''] else []"
    have eq: "digest_body team_name data ai_summary
                = pre @ merges_header (length ms) # (map merge_line (take 5 ms) @ ?ovf @ rest)"
      using split assms(2) False present by (simp add: add_recent_merges_eq dict_get_def)
    have after: "after_merges_header (digest_body team_name data ai_summary)
                   = map merge_line (take 5 ms) @ ?ovf @ rest"
      unfolding eq using pre by (intro after_merges_header_first) (auto simp: reads_merges_header)
    have lines: "rendered_merge_lines (digest_body team_name data ai_summary)
                   = map merge_line (take 5 ms)"
      unfolding rendered_merge_lines_def after
      using stop by (simp add: takeWhile_merge_lines reads_overflow)
    have ovf: "(\<exists>b\<in>set (digest_body team_name data ai_summary). is_merged_overflow b)
                 \<longleftrightarrow> 5 < length ms"
      unfolding eq using pre rest
      by (auto simp: reads_merges_header reads_merge_line reads_overflow)
    show ?thesis using lines ovf by (simp add: body)
  qed
qed

theorem C9_merge_lines_witness:
  "length (rendered_merge_lines
             (card_body (format_daily_digest (asc ''Core'')
                (github_only (merges_only (map sample_merge [1, 2, 3, 4, 5, 6, 7]))) []))) = 5
   \<and> (\<exists>b\<in>set (card_body (format_daily_digest (asc ''Core'')
                (github_only (merges_only (map sample_merge [1, 2, 3, 4, 5, 6, 7]))) [])).
         is_merged_overflow b)
   \<and> length (rendered_merge_lines
             (card_body (format_daily_digest (asc ''Core'')
                (github_only (merges_only (map sample_merge [1, 2]))) []))) = 2
   \<and> \<not> (\<exists>b\<in>set (card_body (format_daily_digest (asc ''Core'')
                (github_only (merges_only (map sample_merge [1, 2]))) [])).
         is_merged_overflow b)"
proof -
  have g: "github (github_only (merges_only ms)) = Some (merges_only ms)"
    and m: "recent_merges (merges_only ms) = Some ms" for ms
    by (simp_all add: github_only_def merges_only_def)
  show ?thesis
    using C9_merge_lines [OF g [of "map sample_merge [1, 2, 3, 4, 5, 6, 7]"] m,
            where team_name = "asc ''Core''" and ai_summary = "[]"]
      C9_merge_lines [OF g [of "map sample_merge [1, 2]"] m,
            where team_name = "asc ''Core''" and ai_summary = "[]"]
    by simp
qed

section \<open>The collector\<close>

lemma init_live:
  "repos (init live_world) = [asc ''acme/api'']"
  "client (init live_world) = Some (\<lambda>name. Inr sample_repo)"
  "ai_summarizer (init live_world) = None"
  by (simp_all add: init_def live_world_def dict_get_def asc_def)

lemma live_enabled: "\<not> disabled (init live_world)"
  by (simp add: disabled_def init_live asc_def)

text \<open>The scans inside a \<open>try\<close> return a list whatever the platform does.\<close>

lemma or_empty_returns: "\<exists>xs. or_empty r = Inr xs"
  by (cases r) (simp_all add: or_empty_def)

lemma get_open_prs_returns: "\<exists>prs. get_open_prs w c = Inr prs"
  using or_empty_returns by (auto simp: get_open_prs_def split: option.splits)

lemma get_urgent_commits_returns: "\<exists>commits. get_urgent_commits w c = Inr commits"
  using or_empty_returns by (auto simp: get_urgent_commits_def Let_def split: option.splits)

lemma analyze_pr_returns: "\<exists>r. analyze_pr w c repo_name number = Inr r"
  by (auto simp: analyze_pr_def split: option.splits sum.splits)

lemma get_pr_analyses_returns: "\<exists>analyses. get_pr_analyses w c = Inr analyses"
  using or_empty_returns by (auto simp: get_pr_analyses_def split: option.splits)

text \<open>\<open>get_recent_merges\<close> raises as soon as the guard lets it through, and \<open>collect\<close> with it.\<close>

lemma recent_merges_raises:
  assumes "client c = Some cl" and "\<not> disabled c"
  shows "get_recent_merges w c
           = Inl (AttributeError
                    (asc ''type object 'datetime.datetime' has no attribute 'timezone'' @ [39]))"
  using assms by (simp add: get_recent_merges_def datetime_timezone_def)

lemma collect_raises:
  assumes "client c = Some cl" and "\<not> disabled c"
  shows "collect w c
           = Inl (AttributeError
                    (asc ''type object 'datetime.datetime' has no attribute 'timezone'' @ [39]))"
proof -
  obtain prs where "get_open_prs w c = Inr prs"
    using get_open_prs_returns by blast
  then show ?thesis
    using recent_merges_raises [OF assms] by (simp add: collect_def)
qed

text \<open>The prompt of the debug log is the collector's prompt of the snapshot.\<close>

lemma analyze_pr_try_prompt:
  assumes "analyze_pr_try w c cl repo_name number = Inr (prompt, analysis)"
  shows "\<exists>pr files. prompt = analyze_pr_prompt (snapshot w pr files)"
  using assms
  by (auto simp: analyze_pr_try_def Let_def split: sum.splits)

text \<open>What the scan inside the \<open>try\<close> keeps, were it reached.\<close>

lemma merge_qualifies_iff:
  "merge_qualifies yesterday pr
   \<longleftrightarrow> pull_merged pr \<and> (\<exists>t. pull_merged_at pr = Some t \<and> yesterday < t)"
  by (simp add: merge_qualifies_def split: option.splits)

lemma scan_merges_keeps:
  assumes "cl repo_name = Inr r" and "closed_pulls r = Inr pulls"
  shows "scan_merges w cl yesterday repo_name
           = Inr (map (merge_data w repo_name) (filter (merge_qualifies yesterday) pulls))"
  using assms by (simp add: scan_merges_def)

text \<open>
  C1: no exception escapes a public operation of the collector. The code breaks it: with
  a token and a repository configured, \<open>get_recent_merges\<close> raises AttributeError before
  its \<open>try\<close>, and \<open>collect\<close>, which calls it, raises with it.
\<close>

theorem C1_exception_escapes:
  "get_recent_merges live_world (init live_world)
     = Inl (AttributeError
              (asc ''type object 'datetime.datetime' has no attribute 'timezone'' @ [39]))
   \<and> collect live_world (init live_world)
     = Inl (AttributeError
              (asc ''type object 'datetime.datetime' has no attribute 'timezone'' @ [39]))"
  using recent_merges_raises [OF init_live(2) live_enabled]
    collect_raises [OF init_live(2) live_enabled]
  by simp

text \<open>
  C2: when no access token is configured, the client is unset, and \<open>get_open_prs\<close>,
  \<open>get_recent_merges\<close>, \<open>get_urgent_commits\<close> and \<open>get_pr_analyses\<close> return the empty
  list, \<open>analyze_pr\<close> returns the empty dictionary, and \<open>collect\<close> returns a dictionary
  whose \<open>open_prs\<close>, \<open>recent_merges\<close> and \<open>urgent_commits\<close> are empty lists; none raises.
\<close>

theorem C2_no_token:
  assumes "GITHUB_TOKEN w0 = None"
  shows "client (init w0) = None
       \<and> get_open_prs w (init w0) = Inr []
       \<and> get_recent_merges w (init w0) = Inr []
       \<and> get_urgent_commits w (init w0) = Inr []
       \<and> get_pr_analyses w (init w0) = Inr []
       \<and> analyze_pr w (init w0) repo_name number = Inr None
       \<and> (\<exists>data. collect w (init w0) = Inr data \<and> open_prs data = Some []
              \<and> recent_merges data = Some [] \<and> urgent_commits data = Some [])"
proof -
  have unset: "client (init w0) = None" using assms by (simp add: init_def)
  have prs: "get_open_prs w (init w0) = Inr []" by (simp add: get_open_prs_def unset)
  have merges: "get_recent_merges w (init w0) = Inr []"
    by (simp add: get_recent_merges_def unset)
  have commits: "get_urgent_commits w (init w0) = Inr []"
    by (simp add: get_urgent_commits_def unset)
  have analyses: "get_pr_analyses w (init w0) = Inr []"
    by (simp add: get_pr_analyses_def unset)
  have analysis: "analyze_pr w (init w0) repo_name number = Inr None"
    by (simp add: analyze_pr_def unset)
  have "\<exists>data. collect w (init w0) = Inr data \<and> open_prs data = Some []
              \<and> recent_merges data = Some [] \<and> urgent_commits data = Some []"
    by (simp add: collect_def prs merges commits analyses Let_def)
  then show ?thesis using unset prs merges commits analyses analysis by blast
qed

theorem C2_no_token_witness:
  "client (init quiet_world) = None
   \<and> get_open_prs quiet_world (init quiet_world) = Inr []
   \<and> get_recent_merges quiet_world (init quiet_world) = Inr []
   \<and> get_urgent_commits quiet_world (init quiet_world) = Inr []
   \<and> get_pr_analyses quiet_world (init quiet_world) = Inr []
   \<and> analyze_pr quiet_world (init quiet_world) (asc ''acme/api'') 42 = Inr None
   \<and> (\<exists>data. collect quiet_world (init quiet_world) = Inr data \<and> open_prs data = Some []
          \<and> recent_merges data = Some [] \<and> urgent_commits data = Some [])"
proof -
  have "GITHUB_TOKEN quiet_world = None" by (simp add: quiet_world_def)
  then show ?thesis by (rule C2_no_token)
qed

text \<open>
  C3: with the client configured, \<open>get_recent_merges\<close> returns the closed pull requests
  that are merged with a merge time after the collection instant minus 24 hours. The
  code breaks it: the pull request merged two hours before the collection passes the test
  of the scan, and the scan of its repository would keep it, but the operation raises
  before the scan and returns no list.
\<close>

theorem C3_recent_merge_lost:
  "merge_qualifies (now live_world - 86400) sample_pull
   \<and> \<not> merge_qualifies (now live_world - 86400)
         (sample_pull\<lparr>pull_merged_at := Some (now live_world - 93600)\<rparr>)
   \<and> scan_merges live_world (\<lambda>name. Inr sample_repo) (now live_world - 86400)
       (asc ''acme/api'')
     = Inr [merge_data live_world (asc ''acme/api'') sample_pull]
   \<and> get_recent_merges live_world (init live_world)
     = Inl (AttributeError
              (asc ''type object 'datetime.datetime' has no attribute 'timezone'' @ [39]))"
proof -
  have kept: "merge_qualifies (now live_world - 86400) sample_pull"
    by (simp add: merge_qualifies_def sample_pull_def live_world_def)
  have dropped: "\<not> merge_qualifies (now live_world - 86400)
                     (sample_pull\<lparr>pull_merged_at := Some (now live_world - 93600)\<rparr>)"
    by (simp add: merge_qualifies_def sample_pull_def live_world_def)
  have "closed_pulls sample_repo = Inr [sample_pull]" by (simp add: sample_repo_def)
  then have "scan_merges live_world (\<lambda>name. Inr sample_repo) (now live_world - 86400)
               (asc ''acme/api'')
             = Inr [merge_data live_world (asc ''acme/api'') sample_pull]"
    using kept by (simp add: scan_merges_def)
  then show ?thesis
    using kept dropped recent_merges_raises [OF init_live(2) live_enabled] by simp
qed

text \<open>
  C5: for a pull request without description, the Description line of the prompt reads
  "No description provided.". The code breaks it: \<open>analyze_pr\<close> writes the \<open>body\<close> key
  with the value \<open>None\<close>, the default of \<open>.get\<close> is not taken, and the line of both prompts
  reads "Description: None".
\<close>

theorem C5_description_none:
  "pull_body sample_pull = None
   \<and> analyze_pr_try live_world (init live_world) (\<lambda>name. Inr sample_repo) (asc ''acme/api'') 42
     = Inr (asc ''You are a senior software engineer.\<newline>Summarize this pull request in plain English.\<newline>Then suggest 3-5 relevant unit test cases based on the logic in the diff.\<newline>\<newline>Pull Request: Add retry\<newline>Author: dana\<newline>Description: None\<newline>\<newline>Changed files:\<newline>\<newline>File: retry.py\<newline>Status: modified\<newline>Changes: +3 -1 lines\<newline>```\<newline>+x\<newline>```\<newline>'',
            \<lparr>an_pr_number = Some 42, an_repo = Some (asc ''acme/api''),
             an_title = Some (asc ''Add retry''), an_author = Some (asc ''dana''),
             an_analysis = Some (asc ''PR Analysis for acme/api#42: Add retry\<newline>AI analysis is currently unavailable.\<newline>Enable AI analysis by setting up AWS Bedrock integration.\<newline>''),
             an_url = Some (asc ''https://example.test/42'')\<rparr>)
   \<and> build_pr_analysis_prompt
       (snapshot live_world sample_pull
          [\<lparr>gf_filename = asc ''retry.py'', gf_status = asc ''modified'',
            gf_additions = 3, gf_deletions = 1, gf_patch = Some (asc ''+x'')\<rparr>])
     = asc ''You are a senior software engineer.\<newline>Summarize this pull request in plain English.\<newline>Then suggest 3-5 relevant unit test cases based on the logic in the diff.\<newline>\<newline>Pull Request: Add retry\<newline>Author: dana\<newline>Description: None\<newline>\<newline>Changed files:\<newline>\<newline>File: retry.py\<newline>Status: modified\<newline>Changes: +3 -1 lines\<newline>```\<newline>+x\<newline>```\<newline>''"
  by (simp add: analyze_pr_try_def init_live sample_repo_def sample_pull_def Let_def
        snapshot_def analyze_pr_prompt_def build_pr_analysis_prompt_def prompt_head_def
        file_entry_def file_lines_def patch_lines_def file_data_def fmt_str_def fmt_int_def
        str_int_def digits.simps dict_get_def unavailable_text_def asc_def)

text \<open>
  C10: a collector has no summarizer after construction, and no operation gives it one
  (the operations return their results and leave the collector as it is). So every
  \<open>analyze_pr\<close> that succeeds takes the branch without AI: the analysis of the returned
  record is the fixed text, which begins with "PR Analysis for {repo_name}#{pr_number}:
  {title}" and contains "AI analysis is currently unavailable."; \<open>analyze_pr_diff\<close> has no
  part in the result.
\<close>

theorem C10_no_summarizer:
  "ai_summarizer (init w0) = None
   \<and> (analyze_pr w (init w0) repo_name number = Inr (Some r) \<longrightarrow>
        (\<exists>title. an_title r = Some title
           \<and> an_analysis r = Some (unavailable_text repo_name number title)
           \<and> prefix (asc ''PR Analysis for '' @ repo_name @ asc ''#'' @ str_int number
                      @ asc '': '' @ title)
               (unavailable_text repo_name number title)
           \<and> sublist (asc ''AI analysis is currently unavailable.'')
               (unavailable_text repo_name number title)))"
proof -
  have none: "ai_summarizer (init w0) = None" by (simp add: init_def)
  have shape: "prefix (asc ''PR Analysis for '' @ repo_name @ asc ''#'' @ str_int number
                      @ asc '': '' @ title)
               (unavailable_text repo_name number title)
           \<and> sublist (asc ''AI analysis is currently unavailable.'')
               (unavailable_text repo_name number title)" for title
  proof
    show "prefix (asc ''PR Analysis for '' @ repo_name @ asc ''#'' @ str_int number
                  @ asc '': '' @ title)
            (unavailable_text repo_name number title)"
      by (rule prefixI [where zs = "asc ''\<newline>''
            @ asc ''AI analysis is currently unavailable.\<newline>''
            @ asc ''Enable AI analysis by setting up AWS Bedrock integration.\<newline>''"])
         (simp add: unavailable_text_def)
    have "unavailable_text repo_name number title
            = (asc ''PR Analysis for '' @ repo_name @ asc ''#'' @ str_int number
               @ asc '': '' @ title @ asc ''\<newline>'')
              @ asc ''AI analysis is currently unavailable.''
              @ asc ''\<newline>Enable AI analysis by setting up AWS Bedrock integration.\<newline>''"
      by (simp add: unavailable_text_def asc_def)
    then show "sublist (asc ''AI analysis is currently unavailable.'')
                 (unavailable_text repo_name number title)"
      by (simp only: sublist_appendI)
  qed
  have "\<exists>title. an_title r = Some title
           \<and> an_analysis r = Some (unavailable_text repo_name number title)"
    if "analyze_pr w (init w0) repo_name number = Inr (Some r)"
    using that none
    by (auto simp: analyze_pr_def analyze_pr_try_def Let_def snapshot_def
          split: option.splits sum.splits)
  then show ?thesis using none shape by blast
qed

theorem C10_no_summarizer_witness:
  "ai_summarizer (init live_world) = None
   \<and> (\<exists>r. analyze_pr live_world (init live_world) (asc ''acme/api'') 42 = Inr (Some r)
          \<and> an_analysis r
            = Some (asc ''PR Analysis for acme/api#42: Add retry\<newline>AI analysis is currently unavailable.\<newline>Enable AI analysis by setting up AWS Bedrock integration.\<newline>''))"
proof -
  obtain r where r: "analyze_pr live_world (init live_world) (asc ''acme/api'') 42 = Inr (Some r)"
    and t: "an_title r = Some (asc ''Add retry'')"
    by (simp add: analyze_pr_def analyze_pr_try_def init_live sample_repo_def sample_pull_def
          Let_def snapshot_def)
  have "unavailable_text (asc ''acme/api'') 42 (asc ''Add retry'')
          = asc ''PR Analysis for acme/api#42: Add retry\<newline>AI analysis is currently unavailable.\<newline>Enable AI analysis by setting up AWS Bedrock integration.\<newline>''"
    by (simp add: unavailable_text_def str_int_def digits.simps asc_def)
  then show ?thesis
    using C10_no_summarizer [of live_world live_world "asc ''acme/api''" 42 r] r t by auto
qed

end
